theory Spec2Isabelle
  imports Main "HOL-Library.AList" "HOL-Library.Char_ord" "HOL-Library.List_Lexorder"
begin

section \<open>The relational engine the program talks to\<close>

text \<open>
  The program is a data-access layer over MySQL: every operation of
  \<^verbatim>\<open>models.py\<close> sends one SQL text through \<^verbatim>\<open>BaseModel._execute_query\<close>,
  and \<^verbatim>\<open>db_config.py\<close> creates the schema.  What an operation does is decided
  by the SQL text, so the SQL statements of the source are transcribed as terms of a small
  abstract syntax and run by an executable model of the engine: tables with the columns
  and constraints of the DDL, rows as column-name-to-value mappings, one transaction per
  connection, AUTO\_INCREMENT counters outside the transaction.
\<close>

subsection \<open>Values and rows\<close>

text \<open>
  A Python \<^verbatim>\<open>str\<close> is its UTF-8 byte sequence, a \<^verbatim>\<open>DATE\<close> a day number and
  a \<^verbatim>\<open>TIMESTAMP\<close> a number of seconds; \<^verbatim>\<open>None\<close> and SQL NULL are \<open>Null\<close>.
  A row is what a dictionary cursor returns: an ordered mapping from column names to values.
\<close>

datatype sqlval = Null | IntV int | StrV string

type_synonym row = "(string \<times> sqlval) list"

definition lookup :: "row \<Rightarrow> string \<Rightarrow> sqlval" where
  "lookup r c = (case map_of r c of None \<Rightarrow> Null | Some v \<Rightarrow> v)"

text \<open>SQL equality: a comparison with NULL is never true.\<close>

fun sql_eq :: "sqlval \<Rightarrow> sqlval \<Rightarrow> bool" where
  "sql_eq (IntV a) (IntV b) = (a = b)"
| "sql_eq (StrV a) (StrV b) = (a = b)"
| "sql_eq _ _ = False"

text \<open>The order of \<^verbatim>\<open>ORDER BY ... ASC\<close>: NULL first, then numbers, then strings.\<close>

fun sql_le :: "sqlval \<Rightarrow> sqlval \<Rightarrow> bool" where
  "sql_le Null _ = True"
| "sql_le (IntV a) Null = False"
| "sql_le (IntV a) (IntV b) = (a \<le> b)"
| "sql_le (IntV a) (StrV b) = True"
| "sql_le (StrV a) (StrV b) = (a \<le> b)"
| "sql_le (StrV a) _ = False"

function digits :: "nat \<Rightarrow> string" where
  "digits n = (if n < 10 then [char_of (48 + n)] else digits (n div 10) @ [char_of (48 + n mod 10)])"
  by pat_completeness auto
termination
  by (relation "measure id") auto

fun text_of :: "sqlval \<Rightarrow> string" where
  "text_of Null = []"
| "text_of (StrV s) = s"
| "text_of (IntV i) = (if i < 0 then CHR ''-'' # digits (nat (- i)) else digits (nat i))"

text \<open>\<^verbatim>\<open>CONCAT\<close> is NULL as soon as one argument is.\<close>

definition sql_concat :: "sqlval list \<Rightarrow> sqlval" where
  "sql_concat vs = (if Null \<in> set vs then Null else StrV (concat (map text_of vs)))"

subsection \<open>Schemas\<close>

datatype coltype = TInt | TVarchar nat | TText | TBoolean | TTimestamp | TDate | TEnum "string list"

datatype attr =
    PrimaryKey | AutoIncrement | NotNull | Unique
  | Default sqlval | DefaultCurrentTimestamp | OnUpdateCurrentTimestamp

datatype column = Column string coltype "attr list"

text \<open>\<open>ForeignKey c t k\<close> is \<^verbatim>\<open>FOREIGN KEY (c) REFERENCES t(k)\<close>.\<close>

datatype fkey = ForeignKey string string string

fun col_name :: "column \<Rightarrow> string" where
  "col_name (Column n _ _) = n"

fun col_type :: "column \<Rightarrow> coltype" where
  "col_type (Column _ t _) = t"

fun col_attrs :: "column \<Rightarrow> attr list" where
  "col_attrs (Column _ _ as) = as"

definition is_auto :: "column \<Rightarrow> bool" where
  "is_auto c = (AutoIncrement \<in> set (col_attrs c))"

definition is_not_null :: "column \<Rightarrow> bool" where
  "is_not_null c = (NotNull \<in> set (col_attrs c) \<or> PrimaryKey \<in> set (col_attrs c))"

definition is_unique :: "column \<Rightarrow> bool" where
  "is_unique c = (Unique \<in> set (col_attrs c) \<or> PrimaryKey \<in> set (col_attrs c))"

fun default_of :: "int \<Rightarrow> attr list \<Rightarrow> sqlval" where
  "default_of now [] = Null"
| "default_of now (Default v # as) = v"
| "default_of now (DefaultCurrentTimestamp # as) = IntV now"
| "default_of now (_ # as) = default_of now as"

record table =
  t_cols :: "column list"
  t_fks :: "fkey list"
  t_rows :: "row list"

type_synonym database = "(string \<times> table) list"

text \<open>The AUTO\_INCREMENT counter of each table; a table without an entry starts at 1.\<close>

type_synonym counters = "(string \<times> int) list"

definition next_id :: "counters \<Rightarrow> string \<Rightarrow> int" where
  "next_id cs t = (case map_of cs t of None \<Rightarrow> 1 | Some n \<Rightarrow> n)"

subsection \<open>Statements\<close>

text \<open>
  \<open>Col a c\<close> is the column \<open>c\<close> of the table whose alias is \<open>a\<close> (a table without an
  alias is its own alias); \<open>Param i\<close> is the \<open>i\<close>-th \<^verbatim>\<open>%s\<close> of the text, counted
  from 0.
\<close>

datatype expr =
    Col string string
  | Param nat
  | Lit sqlval
  | Concat "expr list"
  | CurrentTimestamp

text \<open>\<open>AllOf a\<close> is \<^verbatim>\<open>a.*\<close>; \<open>Item e n\<close> is an expression shown under the name \<open>n\<close>.\<close>

datatype item = AllOf string | Item expr string

datatype stmt =
    CreateTableIfNotExists string "column list" "fkey list"
  | Insert bool string "string list" "expr list list"
  | Update string "(string \<times> expr) list" expr expr
  | Select "item list" "string \<times> string" "(string \<times> string \<times> expr \<times> expr) list"
      "(expr \<times> expr) option" "expr option"
  | SelectLastInsertId

text \<open>
  \<open>Insert ign t cs vss\<close> is \<^verbatim>\<open>INSERT [IGNORE] INTO t (cs) VALUES vss\<close>;
  \<open>Update t sets l r\<close> is \<^verbatim>\<open>UPDATE t SET sets WHERE l = r\<close>;
  \<open>Select items (t, a) joins wh ord\<close> is
  \<^verbatim>\<open>SELECT items FROM t a JOIN ... ON l = r WHERE l = r ORDER BY e ASC\<close>.
\<close>

text \<open>
  The errors of the program.  \<open>MySQLError errno msg\<close> is a
  \<^verbatim>\<open>mysql.connector.Error\<close>; the next three are the typed errors that the
  specification names; the others are Python's own.  \<open>BadRef\<close> stands for a reference to an
  object that was never allocated, which Python cannot build: it keeps the model total.
\<close>

datatype error =
    MySQLError int string
  | QueryError error
  | SchemaError error
  | ConnectionError error
  | KeyError string
  | IndexError
  | TypeError
  | AttributeError
  | ValueError
  | BadRef

fun expr_params :: "expr \<Rightarrow> nat" where
  "expr_params (Param i) = 1"
| "expr_params (Concat es) = sum_list (map expr_params es)"
| "expr_params _ = 0"

fun item_params :: "item \<Rightarrow> nat" where
  "item_params (AllOf a) = 0"
| "item_params (Item e n) = expr_params e"

fun stmt_params :: "stmt \<Rightarrow> nat" where
  "stmt_params (CreateTableIfNotExists t cs fks) = 0"
| "stmt_params (Insert ign t cs vss) = sum_list (map (\<lambda>vs. sum_list (map expr_params vs)) vss)"
| "stmt_params (Update t sets l r) =
     sum_list (map (\<lambda>(c, e). expr_params e) sets) + expr_params l + expr_params r"
| "stmt_params (Select items fr joins wh ord) =
     sum_list (map item_params items)
     + sum_list (map (\<lambda>(t, a, l, r). expr_params l + expr_params r) joins)
     + (case wh of None \<Rightarrow> 0 | Some (l, r) \<Rightarrow> expr_params l + expr_params r)
     + (case ord of None \<Rightarrow> 0 | Some e \<Rightarrow> expr_params e)"
| "stmt_params SelectLastInsertId = 0"

subsection \<open>Evaluation of expressions\<close>

type_synonym env = "(string \<times> row) list"

fun eval_expr :: "sqlval list \<Rightarrow> int \<Rightarrow> env \<Rightarrow> expr \<Rightarrow> sqlval" where
  "eval_expr ps now env (Col a c) = (case map_of env a of None \<Rightarrow> Null | Some r \<Rightarrow> lookup r c)"
| "eval_expr ps now env (Param i) = (if i < length ps then ps ! i else Null)"
| "eval_expr ps now env (Lit v) = v"
| "eval_expr ps now env (Concat es) = sql_concat (map (eval_expr ps now env) es)"
| "eval_expr ps now env CurrentTimestamp = IntV now"

text \<open>
  Name resolution: a scope maps each alias to the columns of its table; an expression is
  resolved when each of its column references names a column of the table of its alias.
\<close>

type_synonym scope = "(string \<times> column list) list"

fun resolved :: "scope \<Rightarrow> expr \<Rightarrow> bool" where
  "resolved sc (Col a c) =
     (case map_of sc a of None \<Rightarrow> False | Some cols \<Rightarrow> c \<in> set (map col_name cols))"
| "resolved sc (Concat es) = list_all (resolved sc) es"
| "resolved sc _ = True"

fun item_resolved :: "scope \<Rightarrow> item \<Rightarrow> bool" where
  "item_resolved sc (AllOf a) = (map_of sc a \<noteq> None)"
| "item_resolved sc (Item e n) = resolved sc e"

subsection \<open>INSERT\<close>

text \<open>Strict mode: a value must fit the type of its column.\<close>

fun fits :: "coltype \<Rightarrow> sqlval \<Rightarrow> bool" where
  "fits t Null = True"
| "fits (TVarchar n) (StrV s) = (length s \<le> n)"
| "fits TText (StrV s) = True"
| "fits (TEnum xs) (StrV s) = (s \<in> set xs)"
| "fits TInt (IntV i) = True"
| "fits TBoolean (IntV i) = True"
| "fits TTimestamp (IntV i) = True"
| "fits TDate (IntV i) = True"
| "fits _ _ = False"

fun misfit_errno :: "coltype \<Rightarrow> int" where
  "misfit_errno (TVarchar n) = 1406"
| "misfit_errno (TEnum xs) = 1265"
| "misfit_errno _ = 1366"

text \<open>
  The value a new row gets in column \<open>c\<close>: the given one, or the next AUTO\_INCREMENT
  value where the column is generated, or the column's default.
\<close>

definition generated :: "row \<Rightarrow> column \<Rightarrow> bool" where
  "generated given c =
     (is_auto c \<and> (case map_of given (col_name c) of None \<Rightarrow> True | Some v \<Rightarrow> v = Null))"

definition fill_col :: "int \<Rightarrow> int \<Rightarrow> row \<Rightarrow> column \<Rightarrow> sqlval" where
  "fill_col now nxt given c =
     (if generated given c then IntV nxt
      else (case map_of given (col_name c) of
              None \<Rightarrow> default_of now (col_attrs c)
            | Some v \<Rightarrow> v))"

definition check_value :: "bool \<Rightarrow> column \<Rightarrow> sqlval \<Rightarrow> error option" where
  "check_value given_explicitly c v =
     (if v = Null then
        (if is_not_null c
         then Some (if given_explicitly then MySQLError 1048 ''Column cannot be null''
                    else MySQLError 1364 ''Field does not have a default value'')
         else None)
      else if fits (col_type c) v then None
      else Some (MySQLError (misfit_errno (col_type c)) ''Incorrect value for column''))"

fun first_error :: "error option list \<Rightarrow> error option" where
  "first_error [] = None"
| "first_error (None # es) = first_error es"
| "first_error (Some e # es) = Some e"

definition duplicate_key :: "column list \<Rightarrow> row list \<Rightarrow> row \<Rightarrow> bool" where
  "duplicate_key cols rows r =
     list_ex (\<lambda>c. is_unique c \<and>
                list_ex (\<lambda>r'. sql_eq (lookup r' (col_name c)) (lookup r (col_name c))) rows) cols"

fun fk_holds :: "database \<Rightarrow> row \<Rightarrow> fkey \<Rightarrow> bool" where
  "fk_holds db r (ForeignKey c rt rc) =
     (lookup r c = Null \<or>
      (case map_of db rt of
         None \<Rightarrow> False
       | Some pt \<Rightarrow> list_ex (\<lambda>r'. sql_eq (lookup r' rc) (lookup r c)) (t_rows pt)))"

text \<open>An explicit or generated value in an AUTO\_INCREMENT column moves the counter past it.\<close>

definition bump :: "int \<Rightarrow> row \<Rightarrow> column list \<Rightarrow> int" where
  "bump nxt r cols =
     foldl (\<lambda>n c. if is_auto c
                   then (case lookup r (col_name c) of IntV v \<Rightarrow> max n (v + 1) | _ \<Rightarrow> n)
                   else n) nxt cols"

text \<open>
  One row of an INSERT.  The result carries the counter, because InnoDB keeps a value it
  has handed out even when the row is then refused for a duplicate key or a missing
  parent; a value error is found before a value is handed out.
\<close>

definition insert_one ::
  "int \<Rightarrow> string \<Rightarrow> database \<Rightarrow> int \<Rightarrow> row \<Rightarrow> int \<times> (error + database \<times> int option)" where
  "insert_one now tn db nxt given =
     (case map_of db tn of
        None \<Rightarrow> (nxt, Inl (MySQLError 1146 ''Table does not exist''))
      | Some t \<Rightarrow>
          let r = map (\<lambda>c. (col_name c, fill_col now nxt given c)) (t_cols t) in
          (case first_error
                  (map (\<lambda>c. check_value (map_of given (col_name c) \<noteq> None) c
                               (fill_col now nxt given c)) (t_cols t)) of
             Some e \<Rightarrow> (nxt, Inl e)
           | None \<Rightarrow>
               let nxt' = bump nxt r (t_cols t);
                   db' = AList.update tn (t\<lparr>t_rows := t_rows t @ [r]\<rparr>) db
               in if duplicate_key (t_cols t) (t_rows t) r
                  then (nxt', Inl (MySQLError 1062 ''Duplicate entry''))
                  else if \<not> list_all (fk_holds db' r) (t_fks t)
                  then (nxt', Inl (MySQLError 1452 ''Cannot add or update a child row''))
                  else (nxt', Inr (db', if list_ex (generated given) (t_cols t)
                                        then Some nxt else None))))"

text \<open>
  The rows of one statement, in order.  With IGNORE a refused row is skipped and the
  statement goes on.  (For a value error MySQL would store an adjusted value instead of
  skipping the row; the seed rows of this program fit the columns its DDL declares.)
\<close>

fun insert_all ::
  "int \<Rightarrow> bool \<Rightarrow> string \<Rightarrow> database \<Rightarrow> int \<Rightarrow> int option \<Rightarrow> row list
     \<Rightarrow> int \<times> (error + database \<times> int option)" where
  "insert_all now ign tn db nxt first [] = (nxt, Inr (db, first))"
| "insert_all now ign tn db nxt first (g # gs) =
     (case insert_one now tn db nxt g of
        (nxt', Inl e) \<Rightarrow>
          if ign then insert_all now ign tn db nxt' first gs else (nxt', Inl e)
      | (nxt', Inr (db', gen)) \<Rightarrow>
          insert_all now ign tn db' nxt' (case first of None \<Rightarrow> gen | Some f \<Rightarrow> Some f) gs)"

definition exec_insert ::
  "sqlval list \<Rightarrow> int \<Rightarrow> counters \<Rightarrow> database \<Rightarrow> int \<Rightarrow> bool \<Rightarrow> string \<Rightarrow> string list
     \<Rightarrow> expr list list \<Rightarrow> counters \<times> (error + database \<times> int \<times> row list option)" where
  "exec_insert ps now cs db lid ign tn cols vss =
     (case map_of db tn of
        None \<Rightarrow> (cs, Inl (MySQLError 1146 ''Table does not exist''))
      | Some t \<Rightarrow>
          if \<not> (list_all (\<lambda>c. c \<in> set (map col_name (t_cols t))) cols
                \<and> list_all (list_all (resolved [])) vss)
          then (cs, Inl (MySQLError 1054 ''Unknown column''))
          else if \<not> list_all (\<lambda>vs. length vs = length cols) vss
          then (cs, Inl (MySQLError 1136 ''Column count does not match value count''))
          else
            (case insert_all now ign tn db (next_id cs tn) None
                    (map (\<lambda>vs. zip cols (map (eval_expr ps now []) vs)) vss) of
               (nxt', Inl e) \<Rightarrow> (AList.update tn nxt' cs, Inl e)
             | (nxt', Inr (db', first)) \<Rightarrow>
                 (AList.update tn nxt' cs,
                  Inr (db', (case first of None \<Rightarrow> lid | Some f \<Rightarrow> f), None))))"

subsection \<open>UPDATE\<close>

text \<open>
  The assignments are evaluated on the old row; a column with
  \<^verbatim>\<open>ON UPDATE CURRENT_TIMESTAMP\<close> that is not assigned takes the current time when the
  row changes.  (Checks on the rows that reference an updated key are not modelled: no
  UPDATE of this program assigns a key column.)
\<close>

definition updated_row :: "sqlval list \<Rightarrow> int \<Rightarrow> string \<Rightarrow> column list \<Rightarrow> (string \<times> expr) list \<Rightarrow> row \<Rightarrow> row" where
  "updated_row ps now tn cols sets r =
     (let r1 = map (\<lambda>(c, v). (c, case map_of sets c of
                                     None \<Rightarrow> v
                                   | Some e \<Rightarrow> eval_expr ps now [(tn, r)] e)) r;
          stamped = map col_name
                      (filter (\<lambda>c. OnUpdateCurrentTimestamp \<in> set (col_attrs c)
                                   \<and> map_of sets (col_name c) = None) cols)
      in if r1 = r then r
         else map (\<lambda>(c, v). (c, if c \<in> set stamped then IntV now else v)) r1)"

fun update_rows ::
  "sqlval list \<Rightarrow> int \<Rightarrow> string \<Rightarrow> table \<Rightarrow> database \<Rightarrow> (string \<times> expr) list \<Rightarrow> expr \<Rightarrow> expr
     \<Rightarrow> row list \<Rightarrow> row list \<Rightarrow> error + row list" where
  "update_rows ps now tn t db sets l r done [] = Inr done"
| "update_rows ps now tn t db sets l r done (x # xs) =
     (if sql_eq (eval_expr ps now [(tn, x)] l) (eval_expr ps now [(tn, x)] r) then
        (let x' = updated_row ps now tn (t_cols t) sets x in
         case first_error (map (\<lambda>c. check_value True c (lookup x' (col_name c))) (t_cols t)) of
           Some e \<Rightarrow> Inl e
         | None \<Rightarrow>
             if duplicate_key (t_cols t) (done @ xs) x'
             then Inl (MySQLError 1062 ''Duplicate entry'')
             else if \<not> list_all
                        (fk_holds (AList.update tn (t\<lparr>t_rows := done @ x' # xs\<rparr>) db) x')
                        (t_fks t)
             then Inl (MySQLError 1452 ''Cannot add or update a child row'')
             else update_rows ps now tn t db sets l r (done @ [x']) xs)
      else update_rows ps now tn t db sets l r (done @ [x]) xs)"

definition exec_update ::
  "sqlval list \<Rightarrow> int \<Rightarrow> database \<Rightarrow> string \<Rightarrow> (string \<times> expr) list \<Rightarrow> expr \<Rightarrow> expr
     \<Rightarrow> error + database" where
  "exec_update ps now db tn sets l r =
     (case map_of db tn of
        None \<Rightarrow> Inl (MySQLError 1146 ''Table does not exist'')
      | Some t \<Rightarrow>
          if \<not> (list_all (\<lambda>(c, e). c \<in> set (map col_name (t_cols t))
                                     \<and> resolved [(tn, t_cols t)] e) sets
                \<and> resolved [(tn, t_cols t)] l \<and> resolved [(tn, t_cols t)] r)
          then Inl (MySQLError 1054 ''Unknown column'')
          else (case update_rows ps now tn t db sets l r [] (t_rows t) of
                  Inl e \<Rightarrow> Inl e
                | Inr rows \<Rightarrow> Inr (AList.update tn (t\<lparr>t_rows := rows\<rparr>) db)))"

subsection \<open>SELECT\<close>

text \<open>A stable insertion sort on the key of \<^verbatim>\<open>ORDER BY ... ASC\<close>.\<close>

fun insort_by :: "('a \<Rightarrow> sqlval) \<Rightarrow> 'a \<Rightarrow> 'a list \<Rightarrow> 'a list" where
  "insort_by k x [] = [x]"
| "insort_by k x (y # ys) = (if sql_le (k x) (k y) then x # y # ys else y # insort_by k x ys)"

definition sort_by :: "('a \<Rightarrow> sqlval) \<Rightarrow> 'a list \<Rightarrow> 'a list" where
  "sort_by k xs = foldr (insort_by k) xs []"

text \<open>
  A dictionary cursor builds each row as a Python \<^verbatim>\<open>dict\<close>: a name that occurs twice
  keeps its first position and its last value.
\<close>

definition dict_of :: "(string \<times> sqlval) list \<Rightarrow> row" where
  "dict_of kvs = foldl (\<lambda>d (k, v). AList.update k v d) [] kvs"

fun project :: "sqlval list \<Rightarrow> int \<Rightarrow> env \<Rightarrow> item \<Rightarrow> (string \<times> sqlval) list" where
  "project ps now env (AllOf a) = (case map_of env a of None \<Rightarrow> [] | Some r \<Rightarrow> r)"
| "project ps now env (Item e n) = [(n, eval_expr ps now env e)]"

text \<open>An inner join, as nested loops in the order of the FROM clause.\<close>

fun join_tables ::
  "sqlval list \<Rightarrow> int \<Rightarrow> database \<Rightarrow> env list \<Rightarrow> (string \<times> string \<times> expr \<times> expr) list \<Rightarrow> env list" where
  "join_tables ps now db envs [] = envs"
| "join_tables ps now db envs ((tn, a, l, r) # js) =
     join_tables ps now db
       (concat (map (\<lambda>env.
          map (\<lambda>x. env @ [(a, x)])
            (filter (\<lambda>x. sql_eq (eval_expr ps now (env @ [(a, x)]) l)
                                 (eval_expr ps now (env @ [(a, x)]) r))
               (case map_of db tn of None \<Rightarrow> [] | Some t \<Rightarrow> t_rows t))) envs))
       js"

definition exec_select ::
  "sqlval list \<Rightarrow> int \<Rightarrow> database \<Rightarrow> item list \<Rightarrow> string \<times> string
     \<Rightarrow> (string \<times> string \<times> expr \<times> expr) list \<Rightarrow> (expr \<times> expr) option \<Rightarrow> expr option
     \<Rightarrow> error + row list" where
  "exec_select ps now db items fr joins wh ord =
     (let tabs = (fst fr, snd fr) # map (\<lambda>(tn, a, l, r). (tn, a)) joins in
      if \<not> list_all (\<lambda>(tn, a). map_of db tn \<noteq> None) tabs
      then Inl (MySQLError 1146 ''Table does not exist'')
      else
        let sc = map (\<lambda>(tn, a). (a, case map_of db tn of None \<Rightarrow> [] | Some t \<Rightarrow> t_cols t)) tabs in
        if \<not> (list_all (item_resolved sc) items
              \<and> list_all (\<lambda>(tn, a, l, r). resolved sc l \<and> resolved sc r) joins
              \<and> (case wh of None \<Rightarrow> True | Some (l, r) \<Rightarrow> resolved sc l \<and> resolved sc r)
              \<and> (case ord of None \<Rightarrow> True | Some e \<Rightarrow> resolved sc e))
        then Inl (MySQLError 1054 ''Unknown column'')
        else
          let envs0 = map (\<lambda>x. [(snd fr, x)])
                        (case map_of db (fst fr) of None \<Rightarrow> [] | Some t \<Rightarrow> t_rows t);
              envs1 = join_tables ps now db envs0 joins;
              envs2 = (case wh of
                         None \<Rightarrow> envs1
                       | Some (l, r) \<Rightarrow>
                           filter (\<lambda>env. sql_eq (eval_expr ps now env l) (eval_expr ps now env r)) envs1);
              envs3 = (case ord of
                         None \<Rightarrow> envs2
                       | Some e \<Rightarrow> sort_by (\<lambda>env. eval_expr ps now env e) envs2)
          in Inr (map (\<lambda>env. dict_of (concat (map (project ps now env) items))) envs3))"

subsection \<open>CREATE TABLE IF NOT EXISTS\<close>

fun fk_declarable :: "database \<Rightarrow> string \<Rightarrow> column list \<Rightarrow> fkey \<Rightarrow> bool" where
  "fk_declarable db tn cols (ForeignKey c rt rc) =
     (c \<in> set (map col_name cols) \<and>
      (if rt = tn then rc \<in> set (map col_name cols)
       else (case map_of db rt of
               None \<Rightarrow> False
             | Some pt \<Rightarrow> rc \<in> set (map col_name (t_cols pt)))))"

definition exec_create :: "database \<Rightarrow> string \<Rightarrow> column list \<Rightarrow> fkey list \<Rightarrow> error + database" where
  "exec_create db tn cols fks =
     (case map_of db tn of
        Some t \<Rightarrow> Inr db
      | None \<Rightarrow>
          if list_all (fk_declarable db tn cols) fks
          then Inr (AList.update tn \<lparr>t_cols = cols, t_fks = fks, t_rows = []\<rparr> db)
          else Inl (MySQLError 1824 ''Failed to open the referenced table''))"

subsection \<open>One statement in a session\<close>

text \<open>
  A statement runs on the session's view of the database (\<open>db\<close>) with the session's
  \<^verbatim>\<open>LAST_INSERT_ID()\<close> (\<open>lid\<close>).  It returns the counters, and either an error (the view
  is then unchanged: a statement is atomic) or the new view, the new
  \<^verbatim>\<open>LAST_INSERT_ID()\<close> and the result set, if the statement has one.
\<close>

fun exec_stmt ::
  "int \<Rightarrow> counters \<Rightarrow> database \<Rightarrow> int \<Rightarrow> stmt \<Rightarrow> sqlval list
     \<Rightarrow> counters \<times> (error + database \<times> int \<times> row list option)" where
  "exec_stmt now cs db lid (CreateTableIfNotExists tn cols fks) ps =
     (case exec_create db tn cols fks of
        Inl e \<Rightarrow> (cs, Inl e)
      | Inr db' \<Rightarrow> (cs, Inr (db', lid, None)))"
| "exec_stmt now cs db lid (Insert ign tn cols vss) ps =
     exec_insert ps now cs db lid ign tn cols vss"
| "exec_stmt now cs db lid (Update tn sets l r) ps =
     (case exec_update ps now db tn sets l r of
        Inl e \<Rightarrow> (cs, Inl e)
      | Inr db' \<Rightarrow> (cs, Inr (db', lid, None)))"
| "exec_stmt now cs db lid (Select items fr joins wh ord) ps =
     (case exec_select ps now db items fr joins wh ord of
        Inl e \<Rightarrow> (cs, Inl e)
      | Inr rows \<Rightarrow> (cs, Inr (db, lid, Some rows)))"
| "exec_stmt now cs db lid SelectLastInsertId ps =
     (cs, Inr (db, lid, Some [[(''LAST_INSERT_ID()'', IntV lid)]]))"

text \<open>A DDL statement commits the open transaction, before and after it runs.\<close>

fun is_ddl :: "stmt \<Rightarrow> bool" where
  "is_ddl (CreateTableIfNotExists tn cols fks) = True"
| "is_ddl _ = False"

section \<open>The connection manager (\<^verbatim>\<open>db_config.py\<close>)\<close>

text \<open>
  The process and the server together.  Python objects that are shared and mutated live in
  stores: \<open>instances\<close> holds every \<^verbatim>\<open>DatabaseConnection\<close> object ever allocated and
  \<open>handles\<close> every connection the driver ever opened; a reference is an index.
  \<open>cls_instance\<close> is the class attribute \<^verbatim>\<open>DatabaseConnection._instance\<close>.  On the
  server's side, \<open>committed\<close> is the committed database and \<open>auto_inc\<close> the counters;
  each session has its own view \<open>txn\<close> (the committed state plus its open transaction)
  and its own \<^verbatim>\<open>LAST_INSERT_ID()\<close>.  \<open>srv_up\<close> says whether the server of
  \<^verbatim>\<open>DB_CONFIG\<close> accepts connections, \<open>clock\<close> is the server's time.  \<open>calls\<close> records
  the calls that the program made on the driver, in order.
\<close>

datatype call = Connect nat | Close nat | Commit nat | Rollback nat

record session =
  connected :: bool
  txn :: database
  last_insert_id :: int

record DatabaseConnection =
  connection :: "nat option"

record world =
  srv_up :: bool
  clock :: int
  committed :: database
  auto_inc :: counters
  handles :: "session list"
  instances :: "DatabaseConnection list"
  cls_instance :: "nat option"
  calls :: "call list"

definition deref :: "'a list \<Rightarrow> nat \<Rightarrow> 'a option" where
  "deref xs i = (if i < length xs then Some (xs ! i) else None)"

text \<open>\<^verbatim>\<open>DatabaseConnection.__new__\<close>: the call \<^verbatim>\<open>DatabaseConnection()\<close>.\<close>

definition DatabaseConnection_new :: "world \<Rightarrow> world \<times> nat" where
  "DatabaseConnection_new w =
     (case cls_instance w of
        None \<Rightarrow>
          (w\<lparr>instances := instances w @ [\<lparr>connection = None\<rparr>],
             cls_instance := Some (length (instances w))\<rparr>,
           length (instances w))
      | Some i \<Rightarrow> (w, i))"

text \<open>\<^verbatim>\<open>connection.is_connected()\<close> asks the server: it never raises.\<close>

definition is_connected :: "world \<Rightarrow> nat \<Rightarrow> bool" where
  "is_connected w h =
     (case deref (handles w) h of None \<Rightarrow> False | Some s \<Rightarrow> connected s \<and> srv_up w)"

text \<open>\<^verbatim>\<open>mysql.connector.connect(**DB_CONFIG)\<close>: a new session, or error 2003.\<close>

definition mysql_connector_connect :: "world \<Rightarrow> world \<times> (error + nat)" where
  "mysql_connector_connect w =
     (if srv_up w
      then (w\<lparr>handles := handles w @ [\<lparr>connected = True, txn = committed w, last_insert_id = 0\<rparr>],
              calls := calls w @ [Connect (length (handles w))]\<rparr>,
            Inr (length (handles w)))
      else (w, Inl (MySQLError 2003 ''Cannot connect to MySQL server'')))"

text \<open>The test \<^verbatim>\<open>not self.connection or not self.connection.is_connected()\<close>.\<close>

definition needs_connect :: "world \<Rightarrow> DatabaseConnection \<Rightarrow> bool" where
  "needs_connect w inst =
     (case connection inst of None \<Rightarrow> True | Some h \<Rightarrow> \<not> is_connected w h)"

definition connect :: "world \<Rightarrow> nat \<Rightarrow> world \<times> (error + unit)" where
  "connect w self =
     (case deref (instances w) self of
        None \<Rightarrow> (w, Inl BadRef)
      | Some inst \<Rightarrow>
          if needs_connect w inst then
            (case mysql_connector_connect w of
               (w1, Inl e) \<Rightarrow> (w1, Inl e)
             | (w1, Inr h) \<Rightarrow>
                 (w1\<lparr>instances := (instances w1)[self := inst\<lparr>connection := Some h\<rparr>]\<rparr>, Inr ()))
          else (w, Inr ()))"

definition disconnect :: "world \<Rightarrow> nat \<Rightarrow> world \<times> (error + unit)" where
  "disconnect w self =
     (case deref (instances w) self of
        None \<Rightarrow> (w, Inl BadRef)
      | Some inst \<Rightarrow>
          (case connection inst of
             None \<Rightarrow> (w, Inr ())
           | Some h \<Rightarrow>
               (case deref (handles w) h of
                  None \<Rightarrow> (w, Inr ())
                | Some s \<Rightarrow>
                    if connected s \<and> srv_up w
                    then (w\<lparr>handles := (handles w)[h := s\<lparr>connected := False\<rparr>],
                            calls := calls w @ [Close h]\<rparr>, Inr ())
                    else (w, Inr ()))))"

definition get_connection :: "world \<Rightarrow> nat \<Rightarrow> world \<times> (error + nat option)" where
  "get_connection w self =
     (case deref (instances w) self of
        None \<Rightarrow> (w, Inl BadRef)
      | Some inst \<Rightarrow>
          if needs_connect w inst then
            (case connect w self of
               (w1, Inl e) \<Rightarrow> (w1, Inl e)
             | (w1, Inr u) \<Rightarrow>
                 (case deref (instances w1) self of
                    None \<Rightarrow> (w1, Inl BadRef)
                  | Some inst1 \<Rightarrow> (w1, Inr (connection inst1))))
          else (w, Inr (connection inst)))"

subsection \<open>The driver's calls on a connection\<close>

definition connection_commit :: "world \<Rightarrow> nat \<Rightarrow> world \<times> (error + unit)" where
  "connection_commit w h =
     (case deref (handles w) h of
        None \<Rightarrow> (w, Inl BadRef)
      | Some s \<Rightarrow>
          if connected s \<and> srv_up w
          then (w\<lparr>committed := txn s, calls := calls w @ [Commit h]\<rparr>, Inr ())
          else (w, Inl (MySQLError 2055 ''MySQL Connection not available'')))"

definition connection_rollback :: "world \<Rightarrow> nat \<Rightarrow> world \<times> (error + unit)" where
  "connection_rollback w h =
     (case deref (handles w) h of
        None \<Rightarrow> (w, Inl BadRef)
      | Some s \<Rightarrow>
          if connected s \<and> srv_up w
          then (w\<lparr>handles := (handles w)[h := s\<lparr>txn := committed w\<rparr>],
                  calls := calls w @ [Rollback h]\<rparr>, Inr ())
          else (w, Inl (MySQLError 2055 ''MySQL Connection not available'')))"

text \<open>
  \<^verbatim>\<open>cursor.execute(query, params)\<close>.  The driver refuses a parameter tuple whose length
  is not the number of \<^verbatim>\<open>%s\<close>.  The counters are kept whatever the outcome; a DDL
  statement commits the session's transaction before it runs and its own effect after.
\<close>

definition cursor_execute ::
  "world \<Rightarrow> nat \<Rightarrow> stmt \<Rightarrow> sqlval list \<Rightarrow> world \<times> (error + row list option)" where
  "cursor_execute w h query params =
     (case deref (handles w) h of
        None \<Rightarrow> (w, Inl BadRef)
      | Some s \<Rightarrow>
          if \<not> (connected s \<and> srv_up w)
          then (w, Inl (MySQLError 2055 ''MySQL Connection not available''))
          else if length params \<noteq> stmt_params query
          then (w, Inl (MySQLError (- 1) ''Wrong number of parameters for the SQL statement''))
          else
            (case exec_stmt (clock w) (auto_inc w) (txn s) (last_insert_id s) query params of
               (cs, Inl e) \<Rightarrow>
                 (w\<lparr>auto_inc := cs,
                    committed := (if is_ddl query then txn s else committed w)\<rparr>, Inl e)
             | (cs, Inr (d, lid, rs)) \<Rightarrow>
                 (w\<lparr>auto_inc := cs,
                    committed := (if is_ddl query then d else committed w),
                    handles := (handles w)[h := s\<lparr>txn := d, last_insert_id := lid\<rparr>]\<rparr>,
                  Inr rs)))"

section \<open>The query executor (\<^verbatim>\<open>models.py\<close>, \<^verbatim>\<open>BaseModel\<close>)\<close>

record BaseModel =
  db :: nat

text \<open>\<^verbatim>\<open>BaseModel.__init__\<close>: \<^verbatim>\<open>self.db = DatabaseConnection()\<close>.\<close>

definition BaseModel_init :: "world \<Rightarrow> world \<times> BaseModel" where
  "BaseModel_init w = (case DatabaseConnection_new w of (w1, i) \<Rightarrow> (w1, \<lparr>db = i\<rparr>))"

text \<open>
  The handler \<^verbatim>\<open>except Error as e: connection.rollback(); logging.error(...); raise\<close>:
  the bare \<^verbatim>\<open>raise\<close> raises the caught error again, as it is.  When the rollback
  itself fails, its error is the one that leaves the handler.
\<close>

definition rollback_and_raise :: "world \<Rightarrow> nat \<Rightarrow> error \<Rightarrow> world \<times> (error + 'a)" where
  "rollback_and_raise w h e =
     (case connection_rollback w h of
        (w1, Inl e1) \<Rightarrow> (w1, Inl e1)
      | (w1, Inr u) \<Rightarrow> (w1, Inl e))"

text \<open>
  \<^verbatim>\<open>_execute_query\<close>.  The connection is fetched outside the \<^verbatim>\<open>try\<close>.
  \<^verbatim>\<open>fetchall\<close> on a statement without a result set raises an
  \<^verbatim>\<open>InterfaceError\<close>, and a commit while a result set is unread an
  \<^verbatim>\<open>InternalError\<close>; both are \<^verbatim>\<open>mysql.connector.Error\<close>s, so the handler
  runs (the driver's rollback discards an unread result set first).
\<close>

definition execute_query ::
  "world \<Rightarrow> BaseModel \<Rightarrow> stmt \<Rightarrow> sqlval list \<Rightarrow> bool \<Rightarrow> world \<times> (error + row list option)" where
  "execute_query w self query params fetch =
     (case get_connection w (db self) of
        (w1, Inl e) \<Rightarrow> (w1, Inl e)
      | (w1, Inr None) \<Rightarrow> (w1, Inl AttributeError)
      | (w1, Inr (Some h)) \<Rightarrow>
          (case cursor_execute w1 h query params of
             (w2, Inl e) \<Rightarrow> rollback_and_raise w2 h e
           | (w2, Inr rs) \<Rightarrow>
               if fetch then
                 (case rs of
                    None \<Rightarrow> rollback_and_raise w2 h (MySQLError (- 1) ''No result set to fetch from'')
                  | Some rows \<Rightarrow> (w2, Inr (Some rows)))
               else
                 (case rs of
                    Some rows \<Rightarrow> rollback_and_raise w2 h (MySQLError (- 1) ''Unread result found'')
                  | None \<Rightarrow>
                      (case connection_commit w2 h of
                         (w3, Inl e) \<Rightarrow> rollback_and_raise w3 h e
                       | (w3, Inr u) \<Rightarrow> (w3, Inr None)))))"

section \<open>Schema initialization (\<^verbatim>\<open>init_database\<close>)\<close>

text \<open>The seven statements of \<^verbatim>\<open>init_database\<close>, in the order of the source.\<close>

definition roles_columns :: "column list" where
  "roles_columns =
     [Column ''role_id'' TInt [PrimaryKey, AutoIncrement],
      Column ''role_name'' (TVarchar 50) [NotNull, Unique],
      Column ''description'' TText [],
      Column ''created_at'' TTimestamp [DefaultCurrentTimestamp],
      Column ''updated_at'' TTimestamp [DefaultCurrentTimestamp, OnUpdateCurrentTimestamp]]"

definition create_roles :: stmt where
  "create_roles = CreateTableIfNotExists ''roles'' roles_columns []"

definition users_columns :: "column list" where
  "users_columns =
     [Column ''user_id'' TInt [PrimaryKey, AutoIncrement],
      Column ''username'' (TVarchar 50) [NotNull, Unique],
      Column ''password_hash'' (TVarchar 255) [NotNull],
      Column ''email'' (TVarchar 100) [NotNull, Unique],
      Column ''role_id'' TInt [],
      Column ''manager_id'' TInt [],
      Column ''is_active'' TBoolean [Default (IntV 1)],
      Column ''created_at'' TTimestamp [DefaultCurrentTimestamp],
      Column ''updated_at'' TTimestamp [DefaultCurrentTimestamp, OnUpdateCurrentTimestamp]]"

definition users_fkeys :: "fkey list" where
  "users_fkeys =
     [ForeignKey ''role_id'' ''roles'' ''role_id'',
      ForeignKey ''manager_id'' ''users'' ''user_id'']"

definition create_users :: stmt where
  "create_users = CreateTableIfNotExists ''users'' users_columns users_fkeys"

definition contacts_columns :: "column list" where
  "contacts_columns =
     [Column ''contact_id'' TInt [PrimaryKey, AutoIncrement],
      Column ''first_name'' (TVarchar 50) [NotNull],
      Column ''last_name'' (TVarchar 50) [NotNull],
      Column ''email'' (TVarchar 100) [],
      Column ''phone'' (TVarchar 20) [],
      Column ''company'' (TVarchar 100) [],
      Column ''assigned_to'' TInt [],
      Column ''notes'' TText [],
      Column ''created_at'' TTimestamp [DefaultCurrentTimestamp],
      Column ''updated_at'' TTimestamp [DefaultCurrentTimestamp, OnUpdateCurrentTimestamp]]"

definition contacts_fkeys :: "fkey list" where
  "contacts_fkeys =
     [ForeignKey ''assigned_to'' ''users'' ''user_id'']"

definition create_contacts :: stmt where
  "create_contacts = CreateTableIfNotExists ''contacts'' contacts_columns contacts_fkeys"

definition task_status_columns :: "column list" where
  "task_status_columns =
     [Column ''status_id'' TInt [PrimaryKey, AutoIncrement],
      Column ''status_name'' (TVarchar 50) [NotNull, Unique],
      Column ''description'' TText [],
      Column ''created_at'' TTimestamp [DefaultCurrentTimestamp]]"

definition create_task_status_table :: stmt where
  "create_task_status_table = CreateTableIfNotExists ''task_status'' task_status_columns []"

definition tasks_columns :: "column list" where
  "tasks_columns =
     [Column ''task_id'' TInt [PrimaryKey, AutoIncrement],
      Column ''title'' (TVarchar 100) [NotNull],
      Column ''description'' TText [],
      Column ''assigned_to'' TInt [],
      Column ''assigned_by'' TInt [],
      Column ''due_date'' TDate [],
      Column ''status_id'' TInt [],
      Column ''priority'' (TEnum [''low'', ''medium'', ''high'']) [Default (StrV ''medium'')],
      Column ''created_at'' TTimestamp [DefaultCurrentTimestamp],
      Column ''updated_at'' TTimestamp [DefaultCurrentTimestamp, OnUpdateCurrentTimestamp]]"

definition tasks_fkeys :: "fkey list" where
  "tasks_fkeys =
     [ForeignKey ''assigned_to'' ''users'' ''user_id'',
      ForeignKey ''assigned_by'' ''users'' ''user_id'',
      ForeignKey ''status_id'' ''task_status'' ''status_id'']"

definition create_tasks :: stmt where
  "create_tasks = CreateTableIfNotExists ''tasks'' tasks_columns tasks_fkeys"

definition seed_roles :: stmt where
  "seed_roles = Insert True ''roles'' [''role_name'', ''description'']
     [[Lit (StrV ''admin''), Lit (StrV ''System administrator with full access'')],
      [Lit (StrV ''manager''),
       Lit (StrV ''Team manager with reporting and task assignment capabilities'')],
      [Lit (StrV ''employee''), Lit (StrV ''Regular employee with basic access'')]]"

definition seed_task_status :: stmt where
  "seed_task_status = Insert True ''task_status'' [''status_name'', ''description'']
     [[Lit (StrV ''not_started''), Lit (StrV ''Task has not been started'')],
      [Lit (StrV ''in_progress''), Lit (StrV ''Task is currently being worked on'')],
      [Lit (StrV ''completed''), Lit (StrV ''Task has been completed'')],
      [Lit (StrV ''on_hold''), Lit (StrV ''Task is temporarily on hold'')]]"

definition init_statements :: "stmt list" where
  "init_statements =
     [create_roles, create_users, create_contacts, create_task_status_table, create_tasks,
      seed_roles, seed_task_status]"

text \<open>The \<^verbatim>\<open>cursor.execute\<close> calls of the \<^verbatim>\<open>try\<close> block, up to the first that raises.\<close>

fun run_script :: "world \<Rightarrow> nat \<Rightarrow> stmt list \<Rightarrow> world \<times> (error + unit)" where
  "run_script w h [] = (w, Inr ())"
| "run_script w h (q # qs) =
     (case cursor_execute w h q [] of
        (w1, Inl e) \<Rightarrow> (w1, Inl e)
      | (w1, Inr rs) \<Rightarrow> run_script w1 h qs)"

definition init_database :: "world \<Rightarrow> world \<times> (error + unit)" where
  "init_database w =
     (case DatabaseConnection_new w of
        (w0, i) \<Rightarrow>
          (case get_connection w0 i of
             (w1, Inl e) \<Rightarrow> (w1, Inl e)
           | (w1, Inr None) \<Rightarrow> (w1, Inl AttributeError)
           | (w1, Inr (Some h)) \<Rightarrow>
               (case run_script w1 h init_statements of
                  (w2, Inl e) \<Rightarrow> rollback_and_raise w2 h e
                | (w2, Inr u) \<Rightarrow>
                    (case connection_commit w2 h of
                       (w3, Inl e) \<Rightarrow> rollback_and_raise w3 h e
                     | (w3, Inr u) \<Rightarrow> (w3, Inr ())))))"

section \<open>The repositories (\<^verbatim>\<open>models.py\<close>)\<close>

subsection \<open>Python's subscripts\<close>

text \<open>\<^verbatim>\<open>result[0]\<close> and \<^verbatim>\<open>row['key']\<close>, with the errors Python raises.\<close>

fun subscript0 :: "row list option \<Rightarrow> error + row" where
  "subscript0 None = Inl TypeError"
| "subscript0 (Some []) = Inl IndexError"
| "subscript0 (Some (r # rs)) = Inr r"

definition getitem :: "row \<Rightarrow> string \<Rightarrow> error + sqlval" where
  "getitem r k = (case map_of r k of None \<Rightarrow> Inl (KeyError k) | Some v \<Rightarrow> Inr v)"

text \<open>\<^verbatim>\<open>data.get(k)\<close> is \<^verbatim>\<open>None\<close> for a missing key.\<close>

definition dict_get :: "row \<Rightarrow> string \<Rightarrow> sqlval" where
  "dict_get data k = (case map_of data k of None \<Rightarrow> Null | Some v \<Rightarrow> v)"

text \<open>
  The expression \<^verbatim>\<open>self._execute_query("SELECT LAST_INSERT_ID()")[0]['LAST_INSERT_ID()']\<close>,
  which ends every create operation.
\<close>

definition fetch_last_insert_id :: "world \<Rightarrow> BaseModel \<Rightarrow> world \<times> (error + sqlval)" where
  "fetch_last_insert_id w self =
     (case execute_query w self SelectLastInsertId [] True of
        (w1, Inl e) \<Rightarrow> (w1, Inl e)
      | (w1, Inr res) \<Rightarrow>
          (case subscript0 res of
             Inl e \<Rightarrow> (w1, Inl e)
           | Inr r \<Rightarrow>
               (case getitem r ''LAST_INSERT_ID()'' of
                  Inl e \<Rightarrow> (w1, Inl e)
                | Inr v \<Rightarrow> (w1, Inr v))))"

subsection \<open>bcrypt\<close>

text \<open>
  The library \<^verbatim>\<open>bcrypt\<close> is not part of the repository.  Its digest function is a
  parameter \<open>bf\<close> (salt and key to digest); what is modelled is the documented frame
  around it, as in the releases of the library before 5.0: the result of
  \<^verbatim>\<open>hashpw\<close> is the 29-byte salt followed by the digest, only the first 72 bytes of
  the password are used, \<^verbatim>\<open>hashpw\<close> reads its salt from the first 29 bytes of its
  second argument (and refuses a shorter one), and \<^verbatim>\<open>checkpw\<close> hashes the candidate
  with the stored hash as salt and compares.  \<^verbatim>\<open>gensalt()\<close> is random: the salt is an
  input of \<open>create_user\<close>.
\<close>

definition hashpw :: "(string \<Rightarrow> string \<Rightarrow> string) \<Rightarrow> string \<Rightarrow> string \<Rightarrow> error + string" where
  "hashpw bf password salt =
     (if length salt < 29 then Inl ValueError
      else Inr (take 29 salt @ bf (take 29 salt) (take 72 password)))"


subsection \<open>User\<close>

definition insert_user :: stmt where
  "insert_user = Insert False ''users''
     [''username'', ''password_hash'', ''email'', ''role_id'', ''manager_id'']
     [[Param 0, Param 1, Param 2, Param 3, Param 4]]"

definition opt_int :: "int option \<Rightarrow> sqlval" where
  "opt_int x = (case x of None \<Rightarrow> Null | Some i \<Rightarrow> IntV i)"

definition create_user ::
  "(string \<Rightarrow> string \<Rightarrow> string) \<Rightarrow> string \<Rightarrow> world \<Rightarrow> BaseModel \<Rightarrow> string \<Rightarrow> string \<Rightarrow> string \<Rightarrow> int
     \<Rightarrow> int option \<Rightarrow> world \<times> (error + sqlval)" where
  "create_user bf salt w self username password email role_id manager_id =
     (case hashpw bf password salt of
        Inl e \<Rightarrow> (w, Inl e)
      | Inr password_hash \<Rightarrow>
          (case execute_query w self insert_user
                  [StrV username, StrV password_hash, StrV email, IntV role_id, opt_int manager_id]
                  False of
             (w1, Inl e) \<Rightarrow> (w1, Inl e)
           | (w1, Inr r) \<Rightarrow> fetch_last_insert_id w1 self))"



definition select_user :: stmt where
  "select_user = Select [AllOf ''u'', Item (Col ''r'' ''role_name'') ''role_name'']
     (''users'', ''u'')
     [(''roles'', ''r'', Col ''u'' ''role_id'', Col ''r'' ''role_id'')]
     (Some (Col ''u'' ''user_id'', Param 0)) None"

text \<open>\<^verbatim>\<open>return result[0] if result else None\<close>.\<close>

definition get_user :: "world \<Rightarrow> BaseModel \<Rightarrow> int \<Rightarrow> world \<times> (error + row option)" where
  "get_user w self user_id =
     (case execute_query w self select_user [IntV user_id] True of
        (w1, Inl e) \<Rightarrow> (w1, Inl e)
      | (w1, Inr None) \<Rightarrow> (w1, Inr None)
      | (w1, Inr (Some [])) \<Rightarrow> (w1, Inr None)
      | (w1, Inr (Some (r # rs))) \<Rightarrow> (w1, Inr (Some r)))"

subsection \<open>Contact\<close>

definition insert_contact :: stmt where
  "insert_contact = Insert False ''contacts''
     [''first_name'', ''last_name'', ''email'', ''phone'', ''company'', ''assigned_to'', ''notes'']
     [[Param 0, Param 1, Param 2, Param 3, Param 4, Param 5, Param 6]]"

definition create_contact :: "world \<Rightarrow> BaseModel \<Rightarrow> row \<Rightarrow> world \<times> (error + sqlval)" where
  "create_contact w self data =
     (case getitem data ''first_name'' of
        Inl e \<Rightarrow> (w, Inl e)
      | Inr first_name \<Rightarrow>
          (case getitem data ''last_name'' of
             Inl e \<Rightarrow> (w, Inl e)
           | Inr last_name \<Rightarrow>
               (case execute_query w self insert_contact
                       [first_name, last_name, dict_get data ''email'', dict_get data ''phone'',
                        dict_get data ''company'', dict_get data ''assigned_to'',
                        dict_get data ''notes''] False of
                  (w1, Inl e) \<Rightarrow> (w1, Inl e)
                | (w1, Inr r) \<Rightarrow> fetch_last_insert_id w1 self)))"

definition update_contact_stmt :: stmt where
  "update_contact_stmt = Update ''contacts''
     [(''first_name'', Param 0), (''last_name'', Param 1), (''email'', Param 2),
      (''phone'', Param 3), (''company'', Param 4), (''assigned_to'', Param 5),
      (''notes'', Param 6), (''updated_at'', CurrentTimestamp)]
     (Col ''contacts'' ''contact_id'') (Param 7)"

text \<open>
  The parameter tuple is built first: \<^verbatim>\<open>data['first_name']\<close> and
  \<^verbatim>\<open>data['last_name']\<close> raise \<^verbatim>\<open>KeyError\<close> before the database is touched.
\<close>

definition update_contact :: "world \<Rightarrow> BaseModel \<Rightarrow> int \<Rightarrow> row \<Rightarrow> world \<times> (error + bool)" where
  "update_contact w self contact_id data =
     (case getitem data ''first_name'' of
        Inl e \<Rightarrow> (w, Inl e)
      | Inr first_name \<Rightarrow>
          (case getitem data ''last_name'' of
             Inl e \<Rightarrow> (w, Inl e)
           | Inr last_name \<Rightarrow>
               (case execute_query w self update_contact_stmt
                       [first_name, last_name, dict_get data ''email'', dict_get data ''phone'',
                        dict_get data ''company'', dict_get data ''assigned_to'',
                        dict_get data ''notes'', IntV contact_id] False of
                  (w1, Inl e) \<Rightarrow> (w1, Inl e)
                | (w1, Inr r) \<Rightarrow> (w1, Inr True))))"

subsection \<open>Task\<close>

definition insert_task :: stmt where
  "insert_task = Insert False ''tasks''
     [''title'', ''description'', ''assigned_to'', ''assigned_by'', ''due_date'', ''status_id'',
      ''priority'']
     [[Param 0, Param 1, Param 2, Param 3, Param 4, Param 5, Param 6]]"

text \<open>\<^verbatim>\<open>data.get('priority', 'medium')\<close>: the default stands in for a missing key only.\<close>

definition create_task :: "world \<Rightarrow> BaseModel \<Rightarrow> row \<Rightarrow> world \<times> (error + sqlval)" where
  "create_task w self data =
     (case getitem data ''title'' of
        Inl e \<Rightarrow> (w, Inl e)
      | Inr title \<Rightarrow>
     (case getitem data ''assigned_to'' of
        Inl e \<Rightarrow> (w, Inl e)
      | Inr assigned_to \<Rightarrow>
     (case getitem data ''assigned_by'' of
        Inl e \<Rightarrow> (w, Inl e)
      | Inr assigned_by \<Rightarrow>
     (case getitem data ''due_date'' of
        Inl e \<Rightarrow> (w, Inl e)
      | Inr due_date \<Rightarrow>
     (case getitem data ''status_id'' of
        Inl e \<Rightarrow> (w, Inl e)
      | Inr status_id \<Rightarrow>
          (case execute_query w self insert_task
                  [title, dict_get data ''description'', assigned_to, assigned_by, due_date,
                   status_id,
                   (case map_of data ''priority'' of None \<Rightarrow> StrV ''medium'' | Some v \<Rightarrow> v)]
                  False of
             (w1, Inl e) \<Rightarrow> (w1, Inl e)
           | (w1, Inr r) \<Rightarrow> fetch_last_insert_id w1 self))))))"

definition select_tasks_as_manager :: stmt where
  "select_tasks_as_manager = Select
     [AllOf ''t'', Item (Col ''ts'' ''status_name'') ''status_name'',
      Item (Concat [Col ''u1'' ''first_name'', Lit (StrV '' ''), Col ''u1'' ''last_name''])
        ''assigned_to_name'']
     (''tasks'', ''t'')
     [(''task_status'', ''ts'', Col ''t'' ''status_id'', Col ''ts'' ''status_id''),
      (''users'', ''u1'', Col ''t'' ''assigned_to'', Col ''u1'' ''user_id'')]
     (Some (Col ''t'' ''assigned_by'', Param 0))
     (Some (Col ''t'' ''due_date''))"

definition select_tasks_as_assignee :: stmt where
  "select_tasks_as_assignee = Select
     [AllOf ''t'', Item (Col ''ts'' ''status_name'') ''status_name'',
      Item (Concat [Col ''u'' ''first_name'', Lit (StrV '' ''), Col ''u'' ''last_name''])
        ''assigned_by_name'']
     (''tasks'', ''t'')
     [(''task_status'', ''ts'', Col ''t'' ''status_id'', Col ''ts'' ''status_id''),
      (''users'', ''u'', Col ''t'' ''assigned_by'', Col ''u'' ''user_id'')]
     (Some (Col ''t'' ''assigned_to'', Param 0))
     (Some (Col ''t'' ''due_date''))"

definition get_tasks_by_user ::
  "world \<Rightarrow> BaseModel \<Rightarrow> int \<Rightarrow> bool \<Rightarrow> world \<times> (error + row list option)" where
  "get_tasks_by_user w self user_id as_manager =
     execute_query w self
       (if as_manager then select_tasks_as_manager else select_tasks_as_assignee)
       [IntV user_id] True"

definition update_task_status_stmt :: stmt where
  "update_task_status_stmt = Update ''tasks''
     [(''status_id'', Param 0), (''updated_at'', CurrentTimestamp)]
     (Col ''tasks'' ''task_id'') (Param 1)"

definition update_task_status :: "world \<Rightarrow> BaseModel \<Rightarrow> int \<Rightarrow> int \<Rightarrow> world \<times> (error + bool)" where
  "update_task_status w self task_id status_id =
     (case execute_query w self update_task_status_stmt [IntV status_id, IntV task_id] False of
        (w1, Inl e) \<Rightarrow> (w1, Inl e)
      | (w1, Inr r) \<Rightarrow> (w1, Inr True))"

subsection \<open>ReferenceData\<close>





section \<open>The vocabulary of the properties\<close>

subsection \<open>The process as a transition system\<close>

text \<open>
  \<open>holds_live w i h\<close>: the \<^verbatim>\<open>DatabaseConnection\<close> object \<open>i\<close> holds the handle \<open>h\<close>, and
  \<open>h\<close> reports itself connected.
\<close>

definition holds_live :: "world \<Rightarrow> nat \<Rightarrow> nat \<Rightarrow> bool" where
  "holds_live w i h =
     (case deref (instances w) i of
        None \<Rightarrow> False
      | Some inst \<Rightarrow> connection inst = Some h \<and> is_connected w h)"

text \<open>A process starts with no object and no connection; the server is in any state.\<close>

definition initial :: "world \<Rightarrow> bool" where
  "initial w = (handles w = [] \<and> instances w = [] \<and> cls_instance w = None \<and> calls w = [])"

text \<open>
  One step of the process is a call of the connection manager, of the query executor (the
  repositories change the world through it alone) or of \<open>init_database\<close>, on an object
  that exists; or an event outside the process: the server stops (every session is lost),
  comes back, drops one connection, or its clock moves.
\<close>

inductive step :: "world \<Rightarrow> world \<Rightarrow> bool" where
  construct: "step w (fst (DatabaseConnection_new w))"
| connect: "i < length (instances w) \<Longrightarrow> step w (fst (connect w i))"
| disconnect: "i < length (instances w) \<Longrightarrow> step w (fst (disconnect w i))"
| get_connection: "i < length (instances w) \<Longrightarrow> step w (fst (get_connection w i))"
| execute_query: "db self < length (instances w) \<Longrightarrow> step w (fst (execute_query w self q ps f))"
| init_database: "step w (fst (init_database w))"
| server_down:
    "step w (w\<lparr>srv_up := False, handles := map (\<lambda>s. s\<lparr>connected := False\<rparr>) (handles w)\<rparr>)"
| server_up: "step w (w\<lparr>srv_up := True\<rparr>)"
| connection_lost:
    "h < length (handles w) \<Longrightarrow>
     step w (w\<lparr>handles := (handles w)[h := (handles w ! h)\<lparr>connected := False\<rparr>]\<rparr>)"
| tick: "step w (w\<lparr>clock := t\<rparr>)"

inductive reachable :: "world \<Rightarrow> bool" where
  start: "initial w \<Longrightarrow> reachable w"
| after: "reachable w \<Longrightarrow> step w w' \<Longrightarrow> reachable w'"

text \<open>
  The invariant behind the singleton: the class attribute and the store of objects agree,
  and a handle whose connection is open is the one that the only object holds.
\<close>

definition singleton_inv :: "world \<Rightarrow> bool" where
  "singleton_inv w =
     ((case cls_instance w of
         None \<Rightarrow> instances w = []
       | Some i \<Rightarrow> i = 0 \<and> length (instances w) = 1)
      \<and> (\<forall>h < length (handles w). connected (handles w ! h) \<longrightarrow>
            (\<exists>inst. instances w = [inst] \<and> connection inst = Some h)))"

text \<open>Two worlds with the same objects and the same open connections.\<close>

definition same_conn :: "world \<Rightarrow> world \<Rightarrow> bool" where
  "same_conn w w' =
     (instances w' = instances w \<and> cls_instance w' = cls_instance w
      \<and> map connected (handles w') = map connected (handles w) \<and> srv_up w' = srv_up w)"

subsection \<open>Concrete worlds\<close>

text \<open>A process that has just started, in front of a running server with an empty database.\<close>

definition world0 :: world where
  "world0 = \<lparr>srv_up = True, clock = 100, committed = [], auto_inc = [], handles = [],
             instances = [], cls_instance = None, calls = []\<rparr>"

text \<open>The same process after \<^verbatim>\<open>DatabaseConnection().get_connection()\<close>.\<close>

definition world1 :: world where
  "world1 = fst (get_connection (fst (DatabaseConnection_new world0)) 0)"

subsection \<open>Worlds in which a repository can work\<close>

text \<open>
  \<open>serving w self\<close>: the server accepts connections, the object behind \<open>self.db\<close> exists,
  and the connection it holds, if it is open, has no uncommitted work.  Every operation of the
  program leaves such a world in this state.
\<close>

definition serving :: "world \<Rightarrow> BaseModel \<Rightarrow> bool" where
  "serving w self =
     (srv_up w \<and>
      (case deref (instances w) (db self) of
         None \<Rightarrow> False
       | Some inst \<Rightarrow>
           (case connection inst of
              None \<Rightarrow> True
            | Some h \<Rightarrow>
                (case deref (handles w) h of
                   None \<Rightarrow> True
                 | Some s \<Rightarrow> connected s \<longrightarrow> txn s = committed w))))"

text \<open>The \<^verbatim>\<open>LAST_INSERT_ID()\<close> of the session that the next statement will use.\<close>

definition session_lid :: "world \<Rightarrow> BaseModel \<Rightarrow> int" where
  "session_lid w self =
     (case deref (instances w) (db self) of
        None \<Rightarrow> 0
      | Some inst \<Rightarrow>
          (case connection inst of
             None \<Rightarrow> 0
           | Some h \<Rightarrow>
               (case deref (handles w) h of
                  None \<Rightarrow> 0
                | Some s \<Rightarrow> if connected s \<and> srv_up w then last_insert_id s else 0)))"

text \<open>\<open>attached w self h\<close>: as \<open>serving\<close>, with the open connection \<open>h\<close> in hand.\<close>

definition attached :: "world \<Rightarrow> BaseModel \<Rightarrow> nat \<Rightarrow> bool" where
  "attached w self h =
     (srv_up w \<and> db self < length (instances w) \<and> connection (instances w ! db self) = Some h
      \<and> h < length (handles w) \<and> connected (handles w ! h) \<and> txn (handles w ! h) = committed w)"

text \<open>A repository object of that process: its \<open>db\<close> is the first object of the store.\<close>

definition bm0 :: BaseModel where
  "bm0 = \<lparr>db = 0\<rparr>"

text \<open>The database that \<open>init_database\<close> leaves on an empty server at time 100.\<close>

definition seed_role_rows :: "row list" where
  "seed_role_rows =
     [[(''role_id'', IntV 1), (''role_name'', StrV ''admin''),
       (''description'', StrV ''System administrator with full access''),
       (''created_at'', IntV 100), (''updated_at'', IntV 100)],
      [(''role_id'', IntV 2), (''role_name'', StrV ''manager''),
       (''description'',
        StrV ''Team manager with reporting and task assignment capabilities''),
       (''created_at'', IntV 100), (''updated_at'', IntV 100)],
      [(''role_id'', IntV 3), (''role_name'', StrV ''employee''),
       (''description'', StrV ''Regular employee with basic access''),
       (''created_at'', IntV 100), (''updated_at'', IntV 100)]]"

definition seed_status_rows :: "row list" where
  "seed_status_rows =
     [[(''status_id'', IntV 1), (''status_name'', StrV ''not_started''),
       (''description'', StrV ''Task has not been started''), (''created_at'', IntV 100)],
      [(''status_id'', IntV 2), (''status_name'', StrV ''in_progress''),
       (''description'', StrV ''Task is currently being worked on''),
       (''created_at'', IntV 100)],
      [(''status_id'', IntV 3), (''status_name'', StrV ''completed''),
       (''description'', StrV ''Task has been completed''), (''created_at'', IntV 100)],
      [(''status_id'', IntV 4), (''status_name'', StrV ''on_hold''),
       (''description'', StrV ''Task is temporarily on hold''),
       (''created_at'', IntV 100)]]"

definition seeded :: database where
  "seeded =
     [(''roles'', \<lparr>t_cols = roles_columns, t_fks = [], t_rows = seed_role_rows\<rparr>),
      (''users'', \<lparr>t_cols = users_columns, t_fks = users_fkeys, t_rows = []\<rparr>),
      (''contacts'', \<lparr>t_cols = contacts_columns, t_fks = contacts_fkeys, t_rows = []\<rparr>),
      (''task_status'', \<lparr>t_cols = task_status_columns, t_fks = [], t_rows = seed_status_rows\<rparr>),
      (''tasks'', \<lparr>t_cols = tasks_columns, t_fks = tasks_fkeys, t_rows = []\<rparr>)]"

text \<open>The process of \<open>world0\<close> after \<open>init_database\<close>.\<close>

definition world2 :: world where
  "world2 =
     \<lparr>srv_up = True, clock = 100, committed = seeded,
      auto_inc = [(''roles'', 4), (''task_status'', 5)],
      handles = [\<lparr>connected = True, txn = seeded, last_insert_id = 1\<rparr>],
      instances = [\<lparr>connection = Some 0\<rparr>], cls_instance = Some 0,
      calls = [Connect 0, Commit 0]\<rparr>"


text \<open>
  A stand-in for the digest of bcrypt, and a salt of the shape \<^verbatim>\<open>gensalt()\<close> returns;
  they serve the concrete worlds only.
\<close>

definition demo_digest :: "string \<Rightarrow> string \<Rightarrow> string" where
  "demo_digest salt key = rev key"

definition salt0 :: string where
  "salt0 = ''$2b$12$abcdefghijklmnopqrstuv''"

text \<open>
  The seeded database after two users, one contact and three tasks were created: alice (a
  manager) is the assignee of the tasks A and B and the assigner of the task C.
\<close>

definition demo_users :: "row list" where
  "demo_users =
     [[(''user_id'', IntV 1), (''username'', StrV ''alice''),
       (''password_hash'', StrV ''$2b$12$abcdefghijklmnopqrstuvesroh tcerroc''),
       (''email'', StrV ''alice@example.org''), (''role_id'', IntV 2),
       (''manager_id'', Null), (''is_active'', IntV 1),
       (''created_at'', IntV 100), (''updated_at'', IntV 100)],
      [(''user_id'', IntV 2), (''username'', StrV ''bob''),
       (''password_hash'', StrV ''$2b$12$abcdefghijklmnopqrstuv2retnuh''),
       (''email'', StrV ''bob@example.org''), (''role_id'', IntV 3),
       (''manager_id'', IntV 1), (''is_active'', IntV 1),
       (''created_at'', IntV 100), (''updated_at'', IntV 100)]]"

definition demo_contacts :: "row list" where
  "demo_contacts =
     [[(''contact_id'', IntV 1), (''first_name'', StrV ''Carol''),
       (''last_name'', StrV ''Coe''), (''email'', Null), (''phone'', Null),
       (''company'', Null), (''assigned_to'', IntV 2), (''notes'', Null),
       (''created_at'', IntV 100), (''updated_at'', IntV 100)]]"

definition demo_tasks :: "row list" where
  "demo_tasks =
     [[(''task_id'', IntV 1), (''title'', StrV ''A''),
       (''description'', Null), (''assigned_to'', IntV 1),
       (''assigned_by'', IntV 2), (''due_date'', IntV 20),
       (''status_id'', IntV 1), (''priority'', StrV ''medium''),
       (''created_at'', IntV 100), (''updated_at'', IntV 100)],
      [(''task_id'', IntV 2), (''title'', StrV ''B''),
       (''description'', Null), (''assigned_to'', IntV 1),
       (''assigned_by'', IntV 2), (''due_date'', IntV 10),
       (''status_id'', IntV 1), (''priority'', StrV ''high''),
       (''created_at'', IntV 100), (''updated_at'', IntV 100)],
      [(''task_id'', IntV 3), (''title'', StrV ''C''),
       (''description'', Null), (''assigned_to'', IntV 2),
       (''assigned_by'', IntV 1), (''due_date'', IntV 15),
       (''status_id'', IntV 2), (''priority'', StrV ''medium''),
       (''created_at'', IntV 100), (''updated_at'', IntV 100)]]"

definition populated :: database where
  "populated =
     [(''roles'', \<lparr>t_cols = roles_columns, t_fks = [], t_rows = seed_role_rows\<rparr>),
      (''users'', \<lparr>t_cols = users_columns, t_fks = users_fkeys, t_rows = demo_users\<rparr>),
      (''contacts'',
       \<lparr>t_cols = contacts_columns, t_fks = contacts_fkeys, t_rows = demo_contacts\<rparr>),
      (''task_status'', \<lparr>t_cols = task_status_columns, t_fks = [], t_rows = seed_status_rows\<rparr>),
      (''tasks'', \<lparr>t_cols = tasks_columns, t_fks = tasks_fkeys, t_rows = demo_tasks\<rparr>)]"

definition world3 :: world where
  "world3 =
     \<lparr>srv_up = True, clock = 100, committed = populated,
      auto_inc = [(''roles'', 4), (''task_status'', 5), (''users'', 3), (''contacts'', 2),
                  (''tasks'', 4)],
      handles = [\<lparr>connected = True, txn = populated, last_insert_id = 3\<rparr>],
      instances = [\<lparr>connection = Some 0\<rparr>], cls_instance = Some 0,
      calls = [Connect 0, Commit 0, Commit 0, Commit 0, Commit 0, Commit 0, Commit 0, Commit 0]\<rparr>"

text \<open>The calls that lead from \<open>world2\<close> to \<open>world3\<close>.\<close>

definition demo_script :: "world \<Rightarrow> world" where
  "demo_script w =
     (let wa = fst (create_user demo_digest salt0 w bm0 ''alice'' ''correct horse''
                      ''alice@example.org'' 2 None);
          wb = fst (create_user demo_digest salt0 wa bm0 ''bob'' ''hunter2''
                      ''bob@example.org'' 3 (Some 1));
          wc = fst (create_contact wb bm0
                      [(''first_name'', StrV ''Carol''), (''last_name'', StrV ''Coe''),
                       (''assigned_to'', IntV 2)]);
          wd = fst (create_task wc bm0
                      [(''title'', StrV ''A''), (''assigned_to'', IntV 1),
                       (''assigned_by'', IntV 2), (''due_date'', IntV 20),
                       (''status_id'', IntV 1)]);
          we = fst (create_task wd bm0
                      [(''title'', StrV ''B''), (''assigned_to'', IntV 1),
                       (''assigned_by'', IntV 2), (''due_date'', IntV 10),
                       (''status_id'', IntV 1), (''priority'', StrV ''high'')])
      in fst (create_task we bm0
                [(''title'', StrV ''C''), (''assigned_to'', IntV 2),
                 (''assigned_by'', IntV 1), (''due_date'', IntV 15),
                 (''status_id'', IntV 2)]))"

text \<open>
  \<open>world3\<close> after one more row was written to \<^verbatim>\<open>users\<close> through the query executor,
  with the statement of \<open>create_user\<close> and no role: the column \<^verbatim>\<open>role_id\<close> is
  declared nullable.
\<close>

definition carol_row :: row where
  "carol_row =
     [(''user_id'', IntV 3), (''username'', StrV ''carol''),
      (''password_hash'', StrV ''$2b$12$abcdefghijklmnopqrstuvlorac''),
      (''email'', StrV ''carol@example.org''), (''role_id'', Null),
      (''manager_id'', Null), (''is_active'', IntV 1),
      (''created_at'', IntV 100), (''updated_at'', IntV 100)]"

definition populated4 :: database where
  "populated4 =
     [(''roles'', \<lparr>t_cols = roles_columns, t_fks = [], t_rows = seed_role_rows\<rparr>),
      (''users'',
       \<lparr>t_cols = users_columns, t_fks = users_fkeys, t_rows = demo_users @ [carol_row]\<rparr>),
      (''contacts'',
       \<lparr>t_cols = contacts_columns, t_fks = contacts_fkeys, t_rows = demo_contacts\<rparr>),
      (''task_status'', \<lparr>t_cols = task_status_columns, t_fks = [], t_rows = seed_status_rows\<rparr>),
      (''tasks'', \<lparr>t_cols = tasks_columns, t_fks = tasks_fkeys, t_rows = demo_tasks\<rparr>)]"

definition world4 :: world where
  "world4 =
     \<lparr>srv_up = True, clock = 100, committed = populated4,
      auto_inc = [(''roles'', 4), (''task_status'', 5), (''users'', 4), (''contacts'', 2),
                  (''tasks'', 4)],
      handles = [\<lparr>connected = True, txn = populated4, last_insert_id = 3\<rparr>],
      instances = [\<lparr>connection = Some 0\<rparr>], cls_instance = Some 0,
      calls = [Connect 0, Commit 0, Commit 0, Commit 0, Commit 0, Commit 0, Commit 0, Commit 0,
               Commit 0]\<rparr>"

subsection \<open>The rows that the repositories write\<close>



text \<open>
  The record that \<open>get_user\<close> builds from a row of \<^verbatim>\<open>users\<close> and the row of
  \<^verbatim>\<open>roles\<close> it is joined with: \<^verbatim>\<open>u.*, r.role_name\<close>.
\<close>

definition joined :: "row \<Rightarrow> row \<Rightarrow> row" where
  "joined u \<rho> = dict_of (u @ [(''role_name'', lookup \<rho> ''role_name'')])"


section \<open>The connection manager is a singleton\<close>

lemma deref_simps [simp]:
  "deref xs i = Some x \<longleftrightarrow> i < length xs \<and> xs ! i = x"
  "deref xs i = None \<longleftrightarrow> \<not> i < length xs"
  by (auto simp: deref_def)

lemma inv_new: "singleton_inv w \<Longrightarrow> singleton_inv (fst (DatabaseConnection_new w))"
  by (auto simp: singleton_inv_def DatabaseConnection_new_def split: option.splits)

lemma connect_cases:
  "connect w i = (w', r) \<Longrightarrow>
     (w' = w) \<or>
     (\<exists>inst. i < length (instances w) \<and> instances w ! i = inst \<and> needs_connect w inst \<and> srv_up w \<and> r = Inr () \<and>
        w' = w\<lparr>handles := handles w @ [\<lparr>connected = True, txn = committed w, last_insert_id = 0\<rparr>],
              calls := calls w @ [Connect (length (handles w))],
              instances := (instances w)[i := inst\<lparr>connection := Some (length (handles w))\<rparr>]\<rparr>)"
  by (auto simp: connect_def mysql_connector_connect_def deref_def split: option.splits if_splits)

lemma inv_connect: "singleton_inv w \<Longrightarrow> singleton_inv (fst (connect w i))"
proof -
  assume inv: "singleton_inv w"
  obtain w' r where c: "connect w i = (w', r)" by (cases "connect w i")
  from connect_cases[OF c] show ?thesis
  proof
    assume "w' = w" with c inv show ?thesis by simp
  next
    assume "\<exists>inst. i < length (instances w) \<and> instances w ! i = inst \<and> needs_connect w inst \<and> srv_up w \<and> r = Inr () \<and>
        w' = w\<lparr>handles := handles w @ [\<lparr>connected = True, txn = committed w, last_insert_id = 0\<rparr>],
              calls := calls w @ [Connect (length (handles w))],
              instances := (instances w)[i := inst\<lparr>connection := Some (length (handles w))\<rparr>]\<rparr>"
    then obtain inst where i: "i < length (instances w)" "instances w ! i = inst" "needs_connect w inst" "srv_up w"
      and w': "w' = w\<lparr>handles := handles w @ [\<lparr>connected = True, txn = committed w, last_insert_id = 0\<rparr>],
              calls := calls w @ [Connect (length (handles w))],
              instances := (instances w)[i := inst\<lparr>connection := Some (length (handles w))\<rparr>]\<rparr>" by blast
    from inv i have one: "instances w = [inst]" "i = 0"
      by (auto simp: singleton_inv_def split: option.splits simp: length_Suc_conv)
    have nolive: "\<forall>h < length (handles w). \<not> connected (handles w ! h)"
      using inv i one by (auto simp: singleton_inv_def needs_connect_def is_connected_def deref_def split: option.splits)
    show ?thesis using c w' inv one nolive
      by (auto simp: singleton_inv_def nth_append split: option.splits)
  qed
qed

lemma same_conn_refl [simp]: "same_conn w w"
  by (simp add: same_conn_def)

lemma same_conn_trans: "same_conn a b \<Longrightarrow> same_conn b c \<Longrightarrow> same_conn a c"
  by (simp add: same_conn_def)

lemma same_conn_inv: "same_conn w w' \<Longrightarrow> singleton_inv w \<Longrightarrow> singleton_inv w'"
proof -
  assume sc: "same_conn w w'" and inv: "singleton_inv w"
  from sc have len: "length (handles w') = length (handles w)"
    by (metis same_conn_def length_map)
  have conn: "\<And>h. h < length (handles w) \<Longrightarrow> connected (handles w' ! h) = connected (handles w ! h)"
  proof -
    fix h assume h: "h < length (handles w)"
    have "map connected (handles w') ! h = map connected (handles w) ! h"
      using sc by (simp add: same_conn_def)
    then show "connected (handles w' ! h) = connected (handles w ! h)"
      using h len by simp
  qed
  show ?thesis using inv sc len conn
    by (auto simp: singleton_inv_def same_conn_def split: option.splits)
qed

lemma map_connected_update:
  "h < length hs \<Longrightarrow> connected s' = connected (hs ! h) \<Longrightarrow> map connected (hs[h := s']) = map connected hs"
  by (simp add: map_update list_update_same_conv)

lemma same_conn_cursor_execute: "same_conn w (fst (cursor_execute w h q ps))"
  by (auto simp: cursor_execute_def same_conn_def map_connected_update split: option.splits prod.splits sum.splits)

lemma same_conn_commit: "same_conn w (fst (connection_commit w h))"
  by (auto simp: connection_commit_def same_conn_def split: option.splits)

lemma same_conn_rollback: "same_conn w (fst (connection_rollback w h))"
  by (auto simp: connection_rollback_def same_conn_def map_connected_update split: option.splits)

lemma same_conn_rollback_and_raise: "same_conn w (fst (rollback_and_raise w h e))"
  using same_conn_rollback[of w h]
  by (auto simp: rollback_and_raise_def split: prod.splits sum.splits)

lemma same_conn_run_script: "same_conn w (fst (run_script w h qs))"
proof (induction qs arbitrary: w)
  case Nil
  then show ?case by simp
next
  case (Cons q qs)
  obtain w1 r where c: "cursor_execute w h q [] = (w1, r)" by (cases "cursor_execute w h q []")
  have s1: "same_conn w w1" using same_conn_cursor_execute[of w h q "[]"] c by simp
  show ?case
  proof (cases r)
    case (Inl e)
    then show ?thesis using c s1 by simp
  next
    case (Inr rs)
    then show ?thesis using c s1 Cons.IH[of w1] by (auto intro: same_conn_trans)
  qed
qed

lemma get_connection_world:
  "fst (get_connection w i) = w \<or> fst (get_connection w i) = fst (connect w i)"
  by (auto simp: get_connection_def split: option.splits prod.splits sum.splits)

lemma inv_get_connection: "singleton_inv w \<Longrightarrow> singleton_inv (fst (get_connection w i))"
  using get_connection_world[of w i] inv_connect[of w i] by auto

lemma inv_disconnect: "singleton_inv w \<Longrightarrow> singleton_inv (fst (disconnect w i))"
  by (auto simp: disconnect_def singleton_inv_def nth_list_update split: option.splits)

lemma same_conn_execute_query:
  "same_conn (fst (get_connection w (db self))) (fst (execute_query w self q ps f))"
proof -
  obtain w1 r where g: "get_connection w (db self) = (w1, r)" by (cases "get_connection w (db self)")
  show ?thesis
  proof (cases r)
    case (Inl e)
    then show ?thesis using g by (simp add: execute_query_def)
  next
    case (Inr ho)
    show ?thesis
    proof (cases ho)
      case None
      then show ?thesis using g Inr by (simp add: execute_query_def)
    next
      case (Some h)
      obtain w2 r2 where c: "cursor_execute w1 h q ps = (w2, r2)" by (cases "cursor_execute w1 h q ps")
      have s12: "same_conn w1 w2" using same_conn_cursor_execute[of w1 h q ps] c by simp
      have rb: "\<And>e. same_conn w1 (fst (rollback_and_raise w2 h e :: world \<times> (error + row list option)))"
        using s12 same_conn_rollback_and_raise same_conn_trans by blast
      obtain w3 r3 where m: "connection_commit w2 h = (w3, r3)" by (cases "connection_commit w2 h")
      have s13: "same_conn w1 w3" using same_conn_commit[of w2 h] m s12 same_conn_trans by fastforce
      have rb3: "\<And>e. same_conn w1 (fst (rollback_and_raise w3 h e :: world \<times> (error + row list option)))"
        using s13 same_conn_rollback_and_raise same_conn_trans by blast
      show ?thesis using g Inr Some c s12 rb m s13 rb3
        by (auto simp: execute_query_def split: sum.splits option.splits)
    qed
  qed
qed

lemma inv_execute_query: "singleton_inv w \<Longrightarrow> singleton_inv (fst (execute_query w self q ps f))"
  by (rule same_conn_inv[OF same_conn_execute_query]) (rule inv_get_connection)

lemma inv_init_database: "singleton_inv w \<Longrightarrow> singleton_inv (fst (init_database w))"
proof -
  assume inv: "singleton_inv w"
  obtain w0 i where n: "DatabaseConnection_new w = (w0, i)" by (cases "DatabaseConnection_new w")
  have i0: "singleton_inv w0" using inv_new[OF inv] n by simp
  obtain w1 r where g: "get_connection w0 i = (w1, r)" by (cases "get_connection w0 i")
  have i1: "singleton_inv w1" using inv_get_connection[OF i0, of i] g by simp
  show ?thesis
  proof (cases r)
    case (Inl e)
    then show ?thesis using n g i1 by (simp add: init_database_def)
  next
    case (Inr ho)
    show ?thesis
    proof (cases ho)
      case None
      then show ?thesis using n g Inr i1 by (simp add: init_database_def)
    next
      case (Some h)
      obtain w2 r2 where c: "run_script w1 h init_statements = (w2, r2)"
        by (cases "run_script w1 h init_statements")
      have s12: "same_conn w1 w2" using same_conn_run_script[of w1 h init_statements] c by simp
      have rb: "\<And>e. same_conn w1 (fst (rollback_and_raise w2 h e :: world \<times> (error + unit)))"
        using s12 same_conn_rollback_and_raise same_conn_trans by blast
      obtain w3 r3 where m: "connection_commit w2 h = (w3, r3)" by (cases "connection_commit w2 h")
      have s13: "same_conn w1 w3" using same_conn_commit[of w2 h] m s12 same_conn_trans by fastforce
      have rb3: "\<And>e. same_conn w1 (fst (rollback_and_raise w3 h e :: world \<times> (error + unit)))"
        using s13 same_conn_rollback_and_raise same_conn_trans by blast
      have "same_conn w1 (fst (init_database w))"
        using n g Inr Some c s12 rb m s13 rb3
        by (auto simp: init_database_def split: sum.splits option.splits)
      then show ?thesis using i1 same_conn_inv by blast
    qed
  qed
qed

lemma inv_step: "step w w' \<Longrightarrow> singleton_inv w \<Longrightarrow> singleton_inv w'"
proof (induction rule: step.induct)
  case (construct w)
  then show ?case by (rule inv_new)
next
  case (connect i w)
  then show ?case by (simp add: inv_connect)
next
  case (disconnect i w)
  then show ?case by (simp add: inv_disconnect)
next
  case (get_connection i w)
  then show ?case by (simp add: inv_get_connection)
next
  case (execute_query self w q ps f)
  then show ?case by (simp add: inv_execute_query)
next
  case (init_database w)
  then show ?case by (simp add: inv_init_database)
next
  case (server_down w)
  then show ?case by (auto simp: singleton_inv_def split: option.splits)
next
  case (server_up w)
  then show ?case by (auto simp: singleton_inv_def split: option.splits)
next
  case (connection_lost h w)
  then show ?case by (auto simp: singleton_inv_def nth_list_update split: option.splits)
next
  case (tick w t)
  then show ?case by (auto simp: singleton_inv_def split: option.splits)
qed

lemma reachable_inv: "reachable w \<Longrightarrow> singleton_inv w"
proof (induction rule: reachable.induct)
  case (start w)
  then show ?case by (simp add: initial_def singleton_inv_def)
next
  case (after w w')
  then show ?case using inv_step by blast
qed

lemma get_connection_live:
  assumes "get_connection w i = (w1, Inr r)"
  shows "\<exists>h. r = Some h \<and> holds_live w1 i h"
proof -
  from assms obtain inst where inst: "i < length (instances w)" "instances w ! i = inst"
    by (auto simp: get_connection_def deref_def split: if_splits)
  show ?thesis
  proof (cases "needs_connect w inst")
    case False
    then show ?thesis using assms inst
      by (auto simp: get_connection_def needs_connect_def holds_live_def deref_def
            split: option.splits)
  next
    case True
    have up: "srv_up w" using assms inst True
      by (auto simp: get_connection_def connect_def mysql_connector_connect_def deref_def
            split: if_splits)
    define w' where "w' = w\<lparr>handles := handles w @ [\<lparr>connected = True, txn = committed w, last_insert_id = 0\<rparr>],
              calls := calls w @ [Connect (length (handles w))],
              instances := (instances w)[i := inst\<lparr>connection := Some (length (handles w))\<rparr>]\<rparr>"
    have c: "connect w i = (w', Inr ())"
      using inst True up by (simp add: w'_def connect_def mysql_connector_connect_def deref_def)
    have "get_connection w i = (w', Inr (Some (length (handles w))))"
      using c inst True by (simp add: get_connection_def deref_def w'_def)
    then show ?thesis using assms inst up
      by (simp add: holds_live_def is_connected_def deref_def w'_def)
  qed
qed

lemma get_connection_held:
  "holds_live w i h \<Longrightarrow> get_connection w i = (w, Inr (Some h))"
  by (auto simp: get_connection_def holds_live_def needs_connect_def split: option.splits)

lemma get_connection_opens:
  "i < length (instances w) \<Longrightarrow> handles (fst (get_connection w i)) \<noteq> handles w
     \<Longrightarrow> needs_connect w (instances w ! i)"
  by (auto simp: get_connection_def deref_def split: option.splits if_splits)

text \<open>
  Claim C7.  In every world that the process can reach, there is at most one
  \<^verbatim>\<open>DatabaseConnection\<close> object and at most one handle that reports itself connected; every
  construction \<^verbatim>\<open>DatabaseConnection()\<close> returns the reference to that one object (and
  allocates nothing once it exists); when \<open>get_connection\<close> returns, it returns a handle
  that is held by the object and is connected; it returns the held handle, in an unchanged
  world, when that handle is connected; and it has opened a connection only if the held handle
  was absent or reported itself disconnected.
\<close>

theorem singleton_connection_manager:
  assumes "reachable w"
  shows "length (instances w) \<le> 1
    \<and> (\<forall>h h'. is_connected w h \<and> is_connected w h' \<longrightarrow> h = h')
    \<and> snd (DatabaseConnection_new w) = 0
    \<and> length (instances (fst (DatabaseConnection_new w))) = 1
    \<and> (\<forall>i w1 r. get_connection w i = (w1, Inr r) \<longrightarrow> (\<exists>h. r = Some h \<and> holds_live w1 i h))
    \<and> (\<forall>i h. holds_live w i h \<longrightarrow> get_connection w i = (w, Inr (Some h)))
    \<and> (\<forall>i. i < length (instances w) \<and> handles (fst (get_connection w i)) \<noteq> handles w
           \<longrightarrow> needs_connect w (instances w ! i))"
proof -
  have inv: "singleton_inv w" using assms by (rule reachable_inv)
  have a: "length (instances w) \<le> 1"
    using inv by (auto simp: singleton_inv_def split: option.splits)
  have b: "\<forall>h h'. is_connected w h \<and> is_connected w h' \<longrightarrow> h = h'"
  proof (intro allI impI)
    fix h h' assume hh: "is_connected w h \<and> is_connected w h'"
    then have l: "h < length (handles w)" "connected (handles w ! h)"
      "h' < length (handles w)" "connected (handles w ! h')"
      by (auto simp: is_connected_def deref_def split: if_splits)
    from inv l(1,2) obtain inst where i1: "instances w = [inst]" "connection inst = Some h"
      unfolding singleton_inv_def by blast
    from inv l(3,4) obtain inst' where i2: "instances w = [inst']" "connection inst' = Some h'"
      unfolding singleton_inv_def by blast
    from i1 i2 show "h = h'" by simp
  qed
  have c1: "snd (DatabaseConnection_new w) = 0"
    using inv by (auto simp: singleton_inv_def DatabaseConnection_new_def split: option.splits)
  have c2: "length (instances (fst (DatabaseConnection_new w))) = 1"
    using inv by (auto simp: singleton_inv_def DatabaseConnection_new_def split: option.splits)
  have d: "\<forall>i w1 r. get_connection w i = (w1, Inr r) \<longrightarrow> (\<exists>h. r = Some h \<and> holds_live w1 i h)"
    using get_connection_live by blast
  have e: "\<forall>i h. holds_live w i h \<longrightarrow> get_connection w i = (w, Inr (Some h))"
    using get_connection_held by blast
  have f: "\<forall>i. i < length (instances w) \<and> handles (fst (get_connection w i)) \<noteq> handles w
           \<longrightarrow> needs_connect w (instances w ! i)"
    using get_connection_opens by blast
  show ?thesis
    by (intro conjI a b c1 c2 d e f)
qed

lemma reachable_world1: "reachable world1"
proof -
  have r0: "reachable world0"
    by (rule reachable.start) (simp add: initial_def world0_def)
  have r1: "reachable (fst (DatabaseConnection_new world0))"
    by (rule reachable.after[OF r0]) (rule step.construct)
  have "0 < length (instances (fst (DatabaseConnection_new world0)))"
    by (simp add: DatabaseConnection_new_def world0_def)
  then have "step (fst (DatabaseConnection_new world0)) world1"
    unfolding world1_def by (rule step.get_connection)
  then show ?thesis using r1 reachable.after by blast
qed

lemma holds_live_world1: "holds_live world1 0 0"
  by (simp add: world1_def world0_def DatabaseConnection_new_def get_connection_def connect_def
        mysql_connector_connect_def needs_connect_def holds_live_def is_connected_def deref_def)

theorem singleton_connection_manager_witness:
  "reachable world1 \<and> length (instances world1) \<le> 1 \<and> snd (DatabaseConnection_new world1) = 0
   \<and> holds_live world1 0 0 \<and> get_connection world1 0 = (world1, Inr (Some 0))"
proof -
  have "\<forall>i h. holds_live world1 i h \<longrightarrow> get_connection world1 i = (world1, Inr (Some h))"
    using singleton_connection_manager[OF reachable_world1] by (elim conjE)
  then have "get_connection world1 0 = (world1, Inr (Some 0))"
    using holds_live_world1 by blast
  then show ?thesis
    using singleton_connection_manager[OF reachable_world1] reachable_world1 holds_live_world1
    by simp
qed

section \<open>The engine raises driver errors only\<close>







section \<open>The query executor in a serving world\<close>

lemma attached_serving: "attached w self h \<Longrightarrow> serving w self"
  by (simp add: attached_def serving_def deref_def)

lemma attached_lid: "attached w self h \<Longrightarrow> session_lid w self = last_insert_id (handles w ! h)"
  by (simp add: attached_def session_lid_def deref_def)

lemma attached_get_connection: "attached w self h \<Longrightarrow> get_connection w (db self) = (w, Inr (Some h))"
  by (rule get_connection_held) (simp add: attached_def holds_live_def is_connected_def deref_def)

lemma serving_attach:
  assumes "serving w self"
  shows "\<exists>w1 h. get_connection w (db self) = (w1, Inr (Some h)) \<and> attached w1 self h
           \<and> committed w1 = committed w \<and> auto_inc w1 = auto_inc w \<and> clock w1 = clock w
           \<and> session_lid w1 self = session_lid w self
           \<and> (calls w1 = calls w \<or> calls w1 = calls w @ [Connect h])"
proof -
  from assms obtain inst where inst: "db self < length (instances w)" "instances w ! db self = inst"
    and up: "srv_up w"
    by (auto simp: serving_def deref_def split: if_splits)
  show ?thesis
  proof (cases "needs_connect w inst")
    case False
    then obtain h where h: "connection inst = Some h" "is_connected w h"
      by (auto simp: needs_connect_def split: option.splits)
    then have "attached w self h" using assms inst up
      by (auto simp: attached_def serving_def is_connected_def deref_def split: if_splits)
    then show ?thesis using attached_get_connection by blast
  next
    case True
    define h where "h = length (handles w)"
    define w' where "w' = w\<lparr>handles := handles w @ [\<lparr>connected = True, txn = committed w, last_insert_id = 0\<rparr>],
              calls := calls w @ [Connect h],
              instances := (instances w)[db self := inst\<lparr>connection := Some h\<rparr>]\<rparr>"
    have c: "connect w (db self) = (w', Inr ())"
      using inst True up by (simp add: w'_def h_def connect_def mysql_connector_connect_def deref_def)
    have g: "get_connection w (db self) = (w', Inr (Some h))"
      using c inst True by (simp add: get_connection_def deref_def w'_def)
    have a: "attached w' self h" using inst up by (simp add: attached_def w'_def h_def)
    have l: "session_lid w self = 0" using True inst
      by (auto simp: session_lid_def needs_connect_def is_connected_def deref_def split: option.splits)
    have l': "session_lid w' self = 0" using inst up
      by (simp add: session_lid_def deref_def w'_def h_def)
    show ?thesis using g a l l' by (auto simp: w'_def)
  qed
qed

lemma execute_query_attach:
  "get_connection w (db self) = (w1, Inr (Some h)) \<Longrightarrow> attached w1 self h
     \<Longrightarrow> execute_query w self q ps f = execute_query w1 self q ps f"
  by (simp add: execute_query_def attached_get_connection)


lemma attached_read:
  assumes "attached w self h" "length ps = stmt_params q"
    and "exec_stmt (clock w) (auto_inc w) (committed w) (session_lid w self) q ps
           = (cs, Inr (d, lid, Some rows))"
    and "d = committed w" "cs = auto_inc w" "lid = session_lid w self"
  shows "\<exists>w'. execute_query w self q ps True = (w', Inr (Some rows)) \<and> attached w' self h
           \<and> committed w' = committed w \<and> auto_inc w' = auto_inc w \<and> clock w' = clock w
           \<and> session_lid w' self = session_lid w self \<and> calls w' = calls w"
  using assms attached_lid[OF assms(1)] attached_get_connection[OF assms(1)]
  by (cases q) (simp_all add: execute_query_def cursor_execute_def deref_def attached_def session_lid_def)

lemma attached_write:
  assumes "attached w self h" "length ps = stmt_params q"
    and "exec_stmt (clock w) (auto_inc w) (committed w) (session_lid w self) q ps
           = (cs, Inr (d, lid, None))"
  shows "\<exists>w'. execute_query w self q ps False = (w', Inr None) \<and> attached w' self h
           \<and> committed w' = d \<and> auto_inc w' = cs \<and> clock w' = clock w
           \<and> session_lid w' self = lid \<and> calls w' = calls w @ [Commit h]"
  using assms attached_lid[OF assms(1)] attached_get_connection[OF assms(1)]
  by (simp add: execute_query_def cursor_execute_def connection_commit_def deref_def attached_def
        session_lid_def)


lemma is_connectedI:
  "h < length (handles w) \<Longrightarrow> connected (handles w ! h) \<Longrightarrow> srv_up w \<Longrightarrow> is_connected w h"
  by (simp add: is_connected_def deref_def)






lemma exec_stmt_rows:
  assumes "exec_stmt now cs d lid q ps = (cs', Inr (d', lid', Some rows))"
  shows "d' = d \<and> cs' = cs \<and> lid' = lid \<and> \<not> is_ddl q"
proof (cases q)
  case (CreateTableIfNotExists tn cols fks)
  then show ?thesis using assms by (auto split: sum.splits)
next
  case (Insert ign tn cols vss)
  then show ?thesis using assms
    by (auto simp: exec_insert_def split: option.splits if_splits prod.splits sum.splits)
next
  case (Update tn sets l r)
  then show ?thesis using assms by (auto split: sum.splits)
next
  case (Select items fr joins wh ord)
  then show ?thesis using assms by (auto split: sum.splits)
next
  case SelectLastInsertId
  then show ?thesis using assms by auto
qed








lemma serving_write:
  assumes "serving w self" "length ps = stmt_params q"
    and "exec_stmt (clock w) (auto_inc w) (committed w) (session_lid w self) q ps
           = (cs, Inr (d, lid, None))"
  shows "\<exists>w'. execute_query w self q ps False = (w', Inr None) \<and> serving w' self
           \<and> committed w' = d \<and> auto_inc w' = cs \<and> clock w' = clock w
           \<and> session_lid w' self = lid"
proof -
  from serving_attach[OF assms(1)] obtain w1 h where
    g: "get_connection w (db self) = (w1, Inr (Some h))" and a: "attached w1 self h"
    and s: "committed w1 = committed w" "auto_inc w1 = auto_inc w" "clock w1 = clock w"
      "session_lid w1 self = session_lid w self"
    by blast
  from attached_write[OF a assms(2), of cs d lid] assms(3) s obtain w' where
    "execute_query w1 self q ps False = (w', Inr None)" "attached w' self h"
    "committed w' = d" "auto_inc w' = cs" "clock w' = clock w"
    "session_lid w' self = lid"
    by auto
  then show ?thesis using execute_query_attach[OF g a, of q ps False] attached_serving by auto
qed

lemma serving_read:
  assumes "serving w self" "length ps = stmt_params q"
    and "exec_stmt (clock w) (auto_inc w) (committed w) (session_lid w self) q ps
           = (cs, Inr (d, lid, Some rows))"
  shows "\<exists>w'. execute_query w self q ps True = (w', Inr (Some rows)) \<and> serving w' self
           \<and> committed w' = committed w \<and> auto_inc w' = auto_inc w \<and> clock w' = clock w
           \<and> session_lid w' self = session_lid w self"
proof -
  from serving_attach[OF assms(1)] obtain w1 h where
    g: "get_connection w (db self) = (w1, Inr (Some h))" and a: "attached w1 self h"
    and s: "committed w1 = committed w" "auto_inc w1 = auto_inc w" "clock w1 = clock w"
      "session_lid w1 self = session_lid w self"
    by blast
  have x: "exec_stmt (clock w1) (auto_inc w1) (committed w1) (session_lid w1 self) q ps
           = (cs, Inr (d, lid, Some rows))"
    using assms(3) s by simp
  from exec_stmt_rows[OF x] have same: "d = committed w1" "cs = auto_inc w1" "lid = session_lid w1 self"
    by simp_all
  from attached_read[OF a assms(2) x same] s obtain w' where
    "execute_query w1 self q ps True = (w', Inr (Some rows))" "attached w' self h"
    "committed w' = committed w" "auto_inc w' = auto_inc w" "clock w' = clock w"
    "session_lid w' self = session_lid w self"
    by auto
  then show ?thesis using execute_query_attach[OF g a, of q ps True] attached_serving by auto
qed




section \<open>The concrete worlds are worlds of the program\<close>

lemma init_world0: "init_database world0 = (world2, Inr ())"
  by code_simp

lemma world3_built: "demo_script world2 = world3"
  by code_simp

lemma serving_world3: "serving world3 bm0"
  by code_simp


lemma world4_built:
  "fst (execute_query world3 bm0 insert_user
          [StrV ''carol'', StrV ''$2b$12$abcdefghijklmnopqrstuvlorac'',
           StrV ''carol@example.org'', Null, Null] False) = world4"
  by code_simp

lemma serving_world4: "serving world4 bm0"
  by code_simp

section \<open>What an INSERT of one row does\<close>






lemma map_of_update_other: "k' \<noteq> k \<Longrightarrow> map_of (AList.update k v d) k' = map_of d k'"
  by (simp add: update_conv')




section \<open>What the SELECTs of the user repository return\<close>

lemma dict_of_snoc: "dict_of (kvs @ [(k, v)]) = AList.update k v (dict_of kvs)"
  by (simp add: dict_of_def)

lemma lookup_dict_of_snoc: "lookup (dict_of (kvs @ [(k, v)])) k = v"
  by (simp add: dict_of_snoc lookup_def update_conv')



lemma select_user_rows:
  assumes "map_of d ''users'' = Some tu" "t_cols tu = users_columns"
    and "map_of d ''roles'' = Some tr" "t_cols tr = roles_columns"
  shows "\<exists>rows. exec_stmt now cs d lid select_user [IntV uid] = (cs, Inr (d, lid, Some rows))
     \<and> set rows = {joined u \<rho> | u \<rho>. u \<in> set (t_rows tu) \<and> \<rho> \<in> set (t_rows tr)
                     \<and> sql_eq (lookup u ''role_id'') (lookup \<rho> ''role_id'')
                     \<and> sql_eq (lookup u ''user_id'') (IntV uid)}"
  using assms
  apply (auto simp: select_user_def exec_select_def users_columns_def roles_columns_def Let_def
        joined_def image_iff)
  subgoal by blast
  subgoal for u \<rho> by (rule exI[of _ "[(''u'', u), (''r'', \<rho>)]"]) simp
  done

section \<open>Errors of the database reach the caller as they are\<close>




section \<open>The contract of the query executor\<close>



section \<open>Creating reference data that exists\<close>

lemma list_ex_mem: "x \<in> set xs \<Longrightarrow> P x \<Longrightarrow> list_ex P xs"
  by (auto simp: list_ex_iff)







section \<open>Updates that match no row\<close>

lemma update_rows_nomatch:
  "\<forall>x \<in> set xs. \<not> sql_eq (eval_expr ps now [(tn, x)] l) (eval_expr ps now [(tn, x)] r)
     \<Longrightarrow> update_rows ps now tn t d sets l r done xs = Inr (done @ xs)"
  by (induction xs arbitrary: "done") auto

lemma update_same_table:
  "map_of d tn = Some (t :: table) \<Longrightarrow> AList.update tn t d = d"
  by (rule AList.update_triv)

lemma update_contact_nomatch:
  assumes "map_of d ''contacts'' = Some t" "t_cols t = contacts_columns"
    and "\<forall>x \<in> set (t_rows t). \<not> sql_eq (lookup x ''contact_id'') (IntV cid)"
    and "length ps = 8" "ps ! 7 = IntV cid"
  shows "exec_stmt now cs d lid update_contact_stmt ps = (cs, Inr (d, lid, None))"
proof -
  have "update_rows ps now ''contacts'' t d
          [(''first_name'', Param 0), (''last_name'', Param 1), (''email'', Param 2),
           (''phone'', Param 3), (''company'', Param 4), (''assigned_to'', Param 5),
           (''notes'', Param 6), (''updated_at'', CurrentTimestamp)]
          (Col ''contacts'' ''contact_id'') (Param 7) [] (t_rows t) = Inr ([] @ t_rows t)"
    by (rule update_rows_nomatch) (use assms(3,4,5) in simp)
  then show ?thesis using assms(1,2)
    by (simp add: update_contact_stmt_def exec_update_def contacts_columns_def update_same_table)
qed

lemma update_task_status_nomatch:
  assumes "map_of d ''tasks'' = Some t" "t_cols t = tasks_columns"
    and "\<forall>x \<in> set (t_rows t). \<not> sql_eq (lookup x ''task_id'') (IntV tid)"
  shows "exec_stmt now cs d lid update_task_status_stmt [IntV sid, IntV tid] = (cs, Inr (d, lid, None))"
proof -
  have "update_rows [IntV sid, IntV tid] now ''tasks'' t d
          [(''status_id'', Param 0), (''updated_at'', CurrentTimestamp)]
          (Col ''tasks'' ''task_id'') (Param 1) [] (t_rows t) = Inr ([] @ t_rows t)"
    by (rule update_rows_nomatch) (use assms(3) in simp)
  then show ?thesis using assms(1,2)
    by (simp add: update_task_status_stmt_def exec_update_def tasks_columns_def update_same_table)
qed

text \<open>
  Claim C9.  \<open>update_contact\<close> and \<open>update_task_status\<close> return no value but
  \<^verbatim>\<open>True\<close>; and for an id that no row of the table has (the data holding the two
  required names), the call returns \<^verbatim>\<open>True\<close> and leaves the committed database as it
  was: the same value as for an update that changed a row, and no error.
\<close>

theorem update_without_row_returns_True:
  assumes "serving w self"
  shows "(\<forall>w' b. update_contact w self cid data = (w', Inr b) \<longrightarrow> b)
       \<and> (\<forall>w' b. update_task_status w self tid sid = (w', Inr b) \<longrightarrow> b)
       \<and> (\<forall>t fn ln. map_of (committed w) ''contacts'' = Some t \<and> t_cols t = contacts_columns
              \<and> (\<forall>x \<in> set (t_rows t). \<not> sql_eq (lookup x ''contact_id'') (IntV cid))
              \<and> map_of data ''first_name'' = Some fn \<and> map_of data ''last_name'' = Some ln
            \<longrightarrow> (\<exists>w'. update_contact w self cid data = (w', Inr True)
                      \<and> committed w' = committed w))
       \<and> (\<forall>t. map_of (committed w) ''tasks'' = Some t \<and> t_cols t = tasks_columns
              \<and> (\<forall>x \<in> set (t_rows t). \<not> sql_eq (lookup x ''task_id'') (IntV tid))
            \<longrightarrow> (\<exists>w'. update_task_status w self tid sid = (w', Inr True)
                      \<and> committed w' = committed w))"
proof (intro conjI allI impI)
  fix w' b assume "update_contact w self cid data = (w', Inr b)"
  then show b
    by (auto simp: update_contact_def split: sum.splits prod.splits)
next
  fix w' b assume "update_task_status w self tid sid = (w', Inr b)"
  then show b
    by (auto simp: update_task_status_def split: sum.splits prod.splits)
next
  fix t fn ln
  assume a: "map_of (committed w) ''contacts'' = Some t \<and> t_cols t = contacts_columns
              \<and> (\<forall>x \<in> set (t_rows t). \<not> sql_eq (lookup x ''contact_id'') (IntV cid))
              \<and> map_of data ''first_name'' = Some fn \<and> map_of data ''last_name'' = Some ln"
  define ps where "ps = [fn, ln, dict_get data ''email'', dict_get data ''phone'',
                        dict_get data ''company'', dict_get data ''assigned_to'',
                        dict_get data ''notes'', IntV cid]"
  have x: "exec_stmt (clock w) (auto_inc w) (committed w) (session_lid w self) update_contact_stmt ps
      = (auto_inc w, Inr (committed w, session_lid w self, None))"
    using a by (intro update_contact_nomatch[of _ t]) (simp_all add: ps_def)
  have p: "length ps = stmt_params update_contact_stmt"
    by (simp add: ps_def update_contact_stmt_def)
  from serving_write[OF assms p x] obtain w' where
    "execute_query w self update_contact_stmt ps False = (w', Inr None)" "committed w' = committed w"
    by blast
  then show "\<exists>w'. update_contact w self cid data = (w', Inr True) \<and> committed w' = committed w"
    using a by (simp add: update_contact_def getitem_def ps_def)
next
  fix t
  assume a: "map_of (committed w) ''tasks'' = Some t \<and> t_cols t = tasks_columns
              \<and> (\<forall>x \<in> set (t_rows t). \<not> sql_eq (lookup x ''task_id'') (IntV tid))"
  have x: "exec_stmt (clock w) (auto_inc w) (committed w) (session_lid w self)
             update_task_status_stmt [IntV sid, IntV tid]
      = (auto_inc w, Inr (committed w, session_lid w self, None))"
    using a by (intro update_task_status_nomatch[of _ t]) simp_all
  have p: "length [IntV sid, IntV tid] = stmt_params update_task_status_stmt"
    by (simp add: update_task_status_stmt_def)
  from serving_write[OF assms p x] obtain w' where
    "execute_query w self update_task_status_stmt [IntV sid, IntV tid] False = (w', Inr None)"
    "committed w' = committed w"
    by blast
  then show "\<exists>w'. update_task_status w self tid sid = (w', Inr True) \<and> committed w' = committed w"
    by (simp add: update_task_status_def)
qed

theorem update_without_row_returns_True_witness:
  "snd (update_contact world3 bm0 7 [(''first_name'', StrV ''Dan''), (''last_name'', StrV ''Doe'')])
     = Inr True
   \<and> committed (fst (update_contact world3 bm0 7
                        [(''first_name'', StrV ''Dan''), (''last_name'', StrV ''Doe'')]))
     = committed world3
   \<and> snd (update_contact world3 bm0 1 [(''first_name'', StrV ''Dan''), (''last_name'', StrV ''Doe'')])
     = Inr True
   \<and> snd (update_task_status world3 bm0 7 2) = Inr True
   \<and> committed (fst (update_task_status world3 bm0 7 2)) = committed world3
   \<and> snd (update_task_status world3 bm0 1 2) = Inr True"
proof -
  define data where "data = [(''first_name'', StrV ''Dan''), (''last_name'', StrV ''Doe'')]"
  have c: "map_of (committed world3) ''contacts'' = Some (snd (populated ! 2))
      \<and> t_cols (snd (populated ! 2)) = contacts_columns
      \<and> list_all (\<lambda>x. \<not> sql_eq (lookup x ''contact_id'') (IntV 7)) (t_rows (snd (populated ! 2)))
      \<and> map_of data ''first_name'' = Some (StrV ''Dan'')
      \<and> map_of data ''last_name'' = Some (StrV ''Doe'')"
    unfolding data_def by code_simp
  have t: "map_of (committed world3) ''tasks'' = Some (snd (populated ! 4))
      \<and> t_cols (snd (populated ! 4)) = tasks_columns
      \<and> list_all (\<lambda>x. \<not> sql_eq (lookup x ''task_id'') (IntV 7)) (t_rows (snd (populated ! 4)))"
    by code_simp
  from update_without_row_returns_True[OF serving_world3, of 7 data 7 2] c t
  have "(\<exists>w'. update_contact world3 bm0 7 data = (w', Inr True) \<and> committed w' = committed world3)
      \<and> (\<exists>w'. update_task_status world3 bm0 7 2 = (w', Inr True) \<and> committed w' = committed world3)"
    unfolding list_all_iff by blast
  moreover have "snd (update_contact world3 bm0 1 data) = Inr True"
    unfolding data_def by code_simp
  moreover have "snd (update_task_status world3 bm0 1 2) = Inr True"
    by code_simp
  ultimately show ?thesis unfolding data_def by auto
qed

section \<open>The tasks of a user\<close>

text \<open>
  Claim C6 fails on the code.  Both queries of \<open>get_tasks_by_user\<close> read
  \<^verbatim>\<open>first_name\<close> and \<^verbatim>\<open>last_name\<close> of a row of \<^verbatim>\<open>users\<close>, columns that the
  table declared by \<open>init_database\<close> does not have: the engine refuses the statement
  (error 1054) and the call raises.  In \<open>world3\<close>, where alice (user 1) is the assignee of
  the tasks A and B and the assigner of the task C, neither direction returns a list.
\<close>

theorem get_tasks_by_user_raises:
  "snd (get_tasks_by_user world3 bm0 1 False) = Inl (MySQLError 1054 ''Unknown column'')
   \<and> snd (get_tasks_by_user world3 bm0 1 True) = Inl (MySQLError 1054 ''Unknown column'')"
  by code_simp

section \<open>Defaults of the create operations\<close>



section \<open>A user and the name of its role\<close>

lemma sql_eq_IntV_right: "sql_eq a (IntV n) \<longleftrightarrow> a = IntV n"
  by (cases a) auto

lemma sql_eq_IntV_left: "sql_eq (IntV n) b \<longleftrightarrow> b = IntV n"
  by (cases b) auto

lemma sql_eq_Null_left: "\<not> sql_eq Null b"
  by simp

lemma distinct_map_eq:
  "distinct (map f xs) \<Longrightarrow> x \<in> set xs \<Longrightarrow> y \<in> set xs \<Longrightarrow> f x = f y \<Longrightarrow> x = y"
  by (auto simp: distinct_map dest: inj_onD)

lemma get_user_from_rows:
  assumes "serving w self"
    and "exec_stmt (clock w) (auto_inc w) (committed w) (session_lid w self) select_user [IntV uid]
           = (auto_inc w, Inr (committed w, session_lid w self, Some rows))"
  shows "snd (get_user w self uid) = Inr (case rows of [] \<Rightarrow> None | r # rs \<Rightarrow> Some r)"
proof -
  have p: "length [IntV uid] = stmt_params select_user"
    by (simp add: select_user_def)
  from serving_read[OF assms(1) p assms(2)] obtain w' where
    "execute_query w self select_user [IntV uid] True = (w', Inr (Some rows))"
    by blast
  then show ?thesis by (cases rows) (simp_all add: get_user_def)
qed

text \<open>
  Claim C5, as amended.  The tables \<^verbatim>\<open>users\<close> and \<^verbatim>\<open>roles\<close> being as declared, with
  their primary keys unique: for a user row with the given id whose \<^verbatim>\<open>role_id\<close> is the
  id of a row of \<^verbatim>\<open>roles\<close>, \<open>get_user\<close> returns the record of that user joined with
  that role, and its \<^verbatim>\<open>role_name\<close> is the name of that role; for a user row with the
  given id whose \<^verbatim>\<open>role_id\<close> is NULL, and for an id that no user row has, it returns
  \<^verbatim>\<open>None\<close>.
\<close>

theorem get_user_joins_role:
  assumes "serving w self"
    and "map_of (committed w) ''users'' = Some tu" "t_cols tu = users_columns"
    and "map_of (committed w) ''roles'' = Some tr" "t_cols tr = roles_columns"
    and "distinct (map (\<lambda>u. lookup u ''user_id'') (t_rows tu))"
    and "distinct (map (\<lambda>\<rho>. lookup \<rho> ''role_id'') (t_rows tr))"
  shows "(\<forall>u \<rho> rid. u \<in> set (t_rows tu) \<and> lookup u ''user_id'' = IntV uid
              \<and> lookup u ''role_id'' = IntV rid
              \<and> \<rho> \<in> set (t_rows tr) \<and> lookup \<rho> ''role_id'' = IntV rid
            \<longrightarrow> snd (get_user w self uid) = Inr (Some (joined u \<rho>))
                \<and> lookup (joined u \<rho>) ''role_name'' = lookup \<rho> ''role_name'')
       \<and> (\<forall>u. u \<in> set (t_rows tu) \<and> lookup u ''user_id'' = IntV uid
              \<and> lookup u ''role_id'' = Null
            \<longrightarrow> snd (get_user w self uid) = Inr None)
       \<and> ((\<forall>u \<in> set (t_rows tu). lookup u ''user_id'' \<noteq> IntV uid)
            \<longrightarrow> snd (get_user w self uid) = Inr None)"
proof -
  from select_user_rows[OF assms(2-5), of "clock w" "auto_inc w" "session_lid w self" uid]
  obtain rows where
    x: "exec_stmt (clock w) (auto_inc w) (committed w) (session_lid w self) select_user [IntV uid]
           = (auto_inc w, Inr (committed w, session_lid w self, Some rows))"
    and s: "set rows = {joined u \<rho> | u \<rho>. u \<in> set (t_rows tu) \<and> \<rho> \<in> set (t_rows tr)
                     \<and> sql_eq (lookup u ''role_id'') (lookup \<rho> ''role_id'')
                     \<and> sql_eq (lookup u ''user_id'') (IntV uid)}"
    by blast
  note g = get_user_from_rows[OF assms(1) x]
  have one: "\<And>u \<rho> rid. u \<in> set (t_rows tu) \<Longrightarrow> lookup u ''user_id'' = IntV uid
      \<Longrightarrow> lookup u ''role_id'' = IntV rid \<Longrightarrow> \<rho> \<in> set (t_rows tr)
      \<Longrightarrow> lookup \<rho> ''role_id'' = IntV rid \<Longrightarrow> set rows = {joined u \<rho>}"
  proof -
    fix u \<rho> rid
    assume u: "u \<in> set (t_rows tu)" "lookup u ''user_id'' = IntV uid" "lookup u ''role_id'' = IntV rid"
      and r: "\<rho> \<in> set (t_rows tr)" "lookup \<rho> ''role_id'' = IntV rid"
    have "\<And>u' \<rho>'. u' \<in> set (t_rows tu) \<Longrightarrow> \<rho>' \<in> set (t_rows tr)
        \<Longrightarrow> sql_eq (lookup u' ''role_id'') (lookup \<rho>' ''role_id'')
        \<Longrightarrow> sql_eq (lookup u' ''user_id'') (IntV uid) \<Longrightarrow> u' = u \<and> \<rho>' = \<rho>"
    proof -
      fix u' \<rho>'
      assume a: "u' \<in> set (t_rows tu)" "\<rho>' \<in> set (t_rows tr)"
        "sql_eq (lookup u' ''role_id'') (lookup \<rho>' ''role_id'')"
        "sql_eq (lookup u' ''user_id'') (IntV uid)"
      have "lookup u' ''user_id'' = lookup u ''user_id''" using a(4) u(2) by (simp add: sql_eq_IntV_right)
      then have eq: "u' = u" using distinct_map_eq[OF assms(6) a(1) u(1)] by simp
      then have "lookup \<rho>' ''role_id'' = lookup \<rho> ''role_id''"
        using a(3) u(3) r(2) by (simp add: sql_eq_IntV_left)
      then have "\<rho>' = \<rho>" using distinct_map_eq[OF assms(7) a(2) r(1)] by simp
      then show "u' = u \<and> \<rho>' = \<rho>" using eq by simp
    qed
    moreover have "sql_eq (lookup u ''role_id'') (lookup \<rho> ''role_id'')"
      "sql_eq (lookup u ''user_id'') (IntV uid)"
      using u r by simp_all
    ultimately show "set rows = {joined u \<rho>}" unfolding s using u(1) r(1) by blast
  qed
  have hd_single: "\<And>x. set rows = {x} \<Longrightarrow> (case rows of [] \<Rightarrow> None | r # rs \<Rightarrow> Some r) = Some x"
    by (cases rows) auto
  have c1: "\<forall>u \<rho> rid. u \<in> set (t_rows tu) \<and> lookup u ''user_id'' = IntV uid
              \<and> lookup u ''role_id'' = IntV rid
              \<and> \<rho> \<in> set (t_rows tr) \<and> lookup \<rho> ''role_id'' = IntV rid
            \<longrightarrow> snd (get_user w self uid) = Inr (Some (joined u \<rho>))
                \<and> lookup (joined u \<rho>) ''role_name'' = lookup \<rho> ''role_name''"
    using one hd_single g by (auto simp: joined_def lookup_dict_of_snoc)
  have c2: "\<forall>u. u \<in> set (t_rows tu) \<and> lookup u ''user_id'' = IntV uid
              \<and> lookup u ''role_id'' = Null
            \<longrightarrow> snd (get_user w self uid) = Inr None"
  proof (intro allI impI)
    fix u assume u: "u \<in> set (t_rows tu) \<and> lookup u ''user_id'' = IntV uid
              \<and> lookup u ''role_id'' = Null"
    have "\<And>u' \<rho>'. u' \<in> set (t_rows tu) \<Longrightarrow> sql_eq (lookup u' ''user_id'') (IntV uid)
        \<Longrightarrow> \<not> sql_eq (lookup u' ''role_id'') (lookup \<rho>' ''role_id'')"
    proof -
      fix u' \<rho>'
      assume a: "u' \<in> set (t_rows tu)" "sql_eq (lookup u' ''user_id'') (IntV uid)"
      have "lookup u' ''user_id'' = lookup u ''user_id''" using a(2) u by (simp add: sql_eq_IntV_right)
      then have "u' = u" using distinct_map_eq[OF assms(6) a(1)] u by simp
      then show "\<not> sql_eq (lookup u' ''role_id'') (lookup \<rho>' ''role_id'')" using u by simp
    qed
    then have "set rows = {}" unfolding s by blast
    then show "snd (get_user w self uid) = Inr None" using g by simp
  qed
  have c3: "(\<forall>u \<in> set (t_rows tu). lookup u ''user_id'' \<noteq> IntV uid)
            \<longrightarrow> snd (get_user w self uid) = Inr None"
  proof
    assume "\<forall>u \<in> set (t_rows tu). lookup u ''user_id'' \<noteq> IntV uid"
    then have "set rows = {}" unfolding s by (auto simp: sql_eq_IntV_right)
    then show "snd (get_user w self uid) = Inr None" using g by simp
  qed
  show ?thesis by (intro conjI c1 c2 c3)
qed

theorem get_user_joins_role_witness:
  "snd (get_user world4 bm0 1) = Inr (Some (joined (demo_users ! 0) (seed_role_rows ! 1)))
   \<and> lookup (joined (demo_users ! 0) (seed_role_rows ! 1)) ''role_name'' = StrV ''manager''
   \<and> snd (get_user world4 bm0 3) = Inr None
   \<and> snd (get_user world4 bm0 9) = Inr None"
proof -
  define tu where "tu = the (map_of (committed world4) ''users'')"
  define tr where "tr = the (map_of (committed world4) ''roles'')"
  note sv = serving_world4
  have h: "map_of (committed world4) ''users'' = Some tu" "t_cols tu = users_columns"
    "map_of (committed world4) ''roles'' = Some tr" "t_cols tr = roles_columns"
    "distinct (map (\<lambda>u. lookup u ''user_id'') (t_rows tu))"
    "distinct (map (\<lambda>\<rho>. lookup \<rho> ''role_id'') (t_rows tr))"
    unfolding tu_def tr_def by code_simp+
  have a: "demo_users ! 0 \<in> set (t_rows tu) \<and> lookup (demo_users ! 0) ''user_id'' = IntV 1
        \<and> lookup (demo_users ! 0) ''role_id'' = IntV 2
        \<and> seed_role_rows ! 1 \<in> set (t_rows tr) \<and> lookup (seed_role_rows ! 1) ''role_id'' = IntV 2
        \<and> lookup (seed_role_rows ! 1) ''role_name'' = StrV ''manager''"
    unfolding tu_def tr_def by code_simp
  have b: "last (t_rows tu) \<in> set (t_rows tu) \<and> lookup (last (t_rows tu)) ''user_id'' = IntV 3
        \<and> lookup (last (t_rows tu)) ''role_id'' = Null"
    unfolding tu_def by code_simp
  have c: "list_all (\<lambda>u. lookup u ''user_id'' \<noteq> IntV 9) (t_rows tu)"
    unfolding tu_def by code_simp
  have 1: "snd (get_user world4 bm0 1) = Inr (Some (joined (demo_users ! 0) (seed_role_rows ! 1)))
      \<and> lookup (joined (demo_users ! 0) (seed_role_rows ! 1)) ''role_name''
          = lookup (seed_role_rows ! 1) ''role_name''"
    using get_user_joins_role[OF sv h, of 1] a by blast
  have 3: "snd (get_user world4 bm0 3) = Inr None"
    using get_user_joins_role[OF sv h, of 3] b by blast
  have 9: "snd (get_user world4 bm0 9) = Inr None"
    using get_user_joins_role[OF sv h, of 9] c unfolding list_all_iff by blast
  show ?thesis using 1 3 9 a by simp
qed

text \<open>
  Against claim C5 as it was stated: in \<open>world4\<close> the row of the user 3 exists, with no
  role, and \<open>get_user\<close> returns \<^verbatim>\<open>None\<close> for the id 3: the inner join drops the row.
\<close>

theorem get_user_misses_user_without_role:
  "map_option (\<lambda>t. map (\<lambda>u. (lookup u ''user_id'', lookup u ''role_id'')) (t_rows t))
      (map_of (committed world4) ''users'')
     = Some [(IntV 1, IntV 2), (IntV 2, IntV 3), (IntV 3, Null)]
   \<and> snd (get_user world4 bm0 3) = Inr None"
  by code_simp

section \<open>Passwords\<close>







end
